theory Spec2Isabelle
  imports Main
begin

section \<open>JavaScript values\<close>

text \<open>
  The adapter in \<^verbatim>\<open>packages/server/src/runHttpQuery.ts\<close> inspects request
  bodies and search parameters of type \<^verbatim>\<open>any\<close> with \<^verbatim>\<open>typeof\<close>,
  truthiness, \<^verbatim>\<open>Array.isArray\<close> and \<^verbatim>\<open>Buffer.isBuffer\<close>. The values
  it can tell apart are the constructors of \<open>jsval\<close>. An object is the list of its
  own enumerable properties in enumeration order. Strings are sequences of UTF-8
  bytes, so that \<open>length\<close> is what \<^verbatim>\<open>Buffer.byteLength(s, 'utf8')\<close> returns;
  numbers are integers.
\<close>

datatype jsval =
    JUndefined
  | JNull
  | JBool bool
  | JNum int
  | JStr string
  | JArr "jsval list"
  | JBuf "nat list"
  | JObj "(string \<times> jsval) list"

fun truthy :: "jsval \<Rightarrow> bool" where
  "truthy JUndefined = False"
| "truthy JNull = False"
| "truthy (JBool b) = b"
| "truthy (JNum n) = (n \<noteq> 0)"
| "truthy (JStr s) = (s \<noteq> [])"
| "truthy (JArr xs) = True"
| "truthy (JBuf bs) = True"
| "truthy (JObj kvs) = True"

fun typeof :: "jsval \<Rightarrow> string" where
  "typeof JUndefined = ''undefined''"
| "typeof JNull = ''object''"
| "typeof (JBool b) = ''boolean''"
| "typeof (JNum n) = ''number''"
| "typeof (JStr s) = ''string''"
| "typeof (JArr xs) = ''object''"
| "typeof (JBuf bs) = ''object''"
| "typeof (JObj kvs) = ''object''"

fun isBuffer :: "jsval \<Rightarrow> bool" where
  "isBuffer (JBuf bs) = True"
| "isBuffer v = False"

fun isArray :: "jsval \<Rightarrow> bool" where
  "isArray (JArr xs) = True"
| "isArray v = False"

text \<open>
  Property read \<^verbatim>\<open>o[fieldName]\<close>. The source reads the properties
  \<^verbatim>\<open>query\<close>, \<^verbatim>\<open>operationName\<close>, \<^verbatim>\<open>variables\<close>, \<^verbatim>\<open>extensions\<close>,
  \<^verbatim>\<open>kind\<close> and \<^verbatim>\<open>code\<close>; none of them exists on an array, a buffer or the
  wrapper of a primitive, where the read gives \<^verbatim>\<open>undefined\<close>.
\<close>

fun get_prop :: "jsval \<Rightarrow> string \<Rightarrow> jsval" where
  "get_prop (JObj kvs) k = (case map_of kvs k of None \<Rightarrow> JUndefined | Some v \<Rightarrow> v)"
| "get_prop v k = JUndefined"

text \<open>\<^verbatim>\<open>Object.keys(o)\<close> on a value that passed \<open>isStringRecord\<close>.\<close>

fun object_keys :: "jsval \<Rightarrow> string list" where
  "object_keys (JObj kvs) = map fst kvs"
| "object_keys v = []"

fun js_string :: "jsval \<Rightarrow> string" where
  "js_string (JStr s) = s"
| "js_string v = []"

subsection \<open>Strings\<close>

definition upper_letters :: string where
  "upper_letters = ''ABCDEFGHIJKLMNOPQRSTUVWXYZ''"

definition lower_letters :: string where
  "lower_letters = ''abcdefghijklmnopqrstuvwxyz''"

definition is_upper :: "char \<Rightarrow> bool" where
  "is_upper c = (c \<in> set upper_letters)"

definition lower_char :: "char \<Rightarrow> char" where
  "lower_char c =
     (case map_of (zip upper_letters lower_letters) c of None \<Rightarrow> c | Some l \<Rightarrow> l)"

text \<open>\<^verbatim>\<open>String.prototype.toLowerCase\<close> on header names, which are ASCII tokens.\<close>

definition toLowerCase :: "string \<Rightarrow> string" where
  "toLowerCase s = map lower_char s"

definition digit_char :: "nat \<Rightarrow> char" where
  "digit_char d = ''0123456789abcdef'' ! d"

text \<open>\<^verbatim>\<open>Number.prototype.toString()\<close> on a non-negative integer.\<close>

fun string_of_nat :: "nat \<Rightarrow> string" where
  "string_of_nat n =
     (if n < 10 then [digit_char n]
      else string_of_nat (n div 10) @ [digit_char (n mod 10)])"

declare string_of_nat.simps [simp del]

definition string_of_int :: "int \<Rightarrow> string" where
  "string_of_int i =
     (if i < 0 then ''-'' @ string_of_nat (nat (- i)) else string_of_nat (nat i))"

subsection \<open>\<^verbatim>\<open>JSON.stringify\<close>\<close>

definition dquote :: char where
  "dquote = CHR 0x22"

definition backslash :: char where
  "backslash = CHR 0x5C"

definition newline :: char where
  "newline = CHR 0x0A"

text \<open>
  The escapes of ECMAScript's QuoteJSONString: the double quote, the backslash, the
  five short escapes, and \<^verbatim>\<open>\u00XX\<close> for every other code unit below 0x20.
\<close>

definition escape_char :: "char \<Rightarrow> string" where
  "escape_char c =
     (if c = dquote then [backslash, dquote]
      else if c = backslash then [backslash, backslash]
      else if c = CHR 0x08 then [backslash, CHR ''b'']
      else if c = CHR 0x09 then [backslash, CHR ''t'']
      else if c = CHR 0x0A then [backslash, CHR ''n'']
      else if c = CHR 0x0C then [backslash, CHR ''f'']
      else if c = CHR 0x0D then [backslash, CHR ''r'']
      else if (of_char c :: nat) < 32 then
        [backslash, CHR ''u'', CHR ''0'', CHR ''0'',
         digit_char ((of_char c :: nat) div 16), digit_char ((of_char c :: nat) mod 16)]
      else [c])"

definition quote :: "string \<Rightarrow> string" where
  "quote s = [dquote] @ concat (map escape_char s) @ [dquote]"

fun join_comma :: "string list \<Rightarrow> string" where
  "join_comma [] = []"
| "join_comma [x] = x"
| "join_comma (x # y # ys) = x @ '','' @ join_comma (y # ys)"

text \<open>
  \<^verbatim>\<open>JSON.stringify(value)\<close> with no indentation. A property whose value is
  \<^verbatim>\<open>undefined\<close> is left out of an object, and \<^verbatim>\<open>undefined\<close> in an array is
  written \<^verbatim>\<open>null\<close>; a buffer is written through its \<^verbatim>\<open>toJSON\<close>. At the top,
  \<^verbatim>\<open>JSON.stringify(undefined)\<close> is \<^verbatim>\<open>undefined\<close>, which the concatenation
  in \<open>prettyJSONStringify\<close> turns into the text \<^verbatim>\<open>undefined\<close>.
\<close>

fun stringify :: "jsval \<Rightarrow> string"
  and stringify_elems :: "jsval list \<Rightarrow> string list"
  and stringify_props :: "(string \<times> jsval) list \<Rightarrow> string list" where
  "stringify JUndefined = ''undefined''"
| "stringify JNull = ''null''"
| "stringify (JBool b) = (if b then ''true'' else ''false'')"
| "stringify (JNum n) = string_of_int n"
| "stringify (JStr s) = quote s"
| "stringify (JArr xs) = ''['' @ join_comma (stringify_elems xs) @ '']''"
| "stringify (JBuf bs) =
     ''{'' @ quote ''type'' @ '':'' @ quote ''Buffer'' @ '','' @ quote ''data'' @ '':[''
       @ join_comma (map string_of_nat bs) @ '']}''"
| "stringify (JObj kvs) = ''{'' @ join_comma (stringify_props kvs) @ ''}''"
| "stringify_elems [] = []"
| "stringify_elems (x # xs) =
     (if x = JUndefined then ''null'' else stringify x) # stringify_elems xs"
| "stringify_props [] = []"
| "stringify_props ((k, v) # kvs) =
     (if v = JUndefined then stringify_props kvs
      else (quote k @ '':'' @ stringify v) # stringify_props kvs)"

text \<open>
  \<^verbatim>\<open>function prettyJSONStringify(value) { return JSON.stringify(value) + '\n'; }\<close>
\<close>

definition prettyJSONStringify :: "jsval \<Rightarrow> string" where
  "prettyJSONStringify v = stringify v @ [newline]"

section \<open>The header collection\<close>

text \<open>
  \<^verbatim>\<open>Map<string, string>\<close>: the entries in insertion order, one per key.
  \<^verbatim>\<open>Map.prototype.set\<close> on a key that is present replaces the value where the
  entry stands; on a new key it appends the entry.
\<close>

type_synonym header_map = "(string \<times> string) list"

fun map_set :: "string \<Rightarrow> string \<Rightarrow> header_map \<Rightarrow> header_map" where
  "map_set k v [] = [(k, v)]"
| "map_set k v ((k', v') # m) =
     (if k' = k then (k, v) # m else (k', v') # map_set k v m)"




definition map_entries :: "header_map \<Rightarrow> (string \<times> string) list" where
  "map_entries m = m"

section \<open>Thrown values\<close>

text \<open>
  What a \<^verbatim>\<open>throw\<close> or a rejected promise carries: an \<open>HttpQueryError\<close>
  (what \<^verbatim>\<open>instanceof HttpQueryError\<close> accepts), another \<^verbatim>\<open>Error\<close> object
  with its \<^verbatim>\<open>name\<close>, \<^verbatim>\<open>message\<close> and \<^verbatim>\<open>extensions\<close> properties, or a
  value that is not an object.
\<close>

record js_error =
  err_name :: string
  err_message :: string
  err_extensions :: jsval

record http_query_error =
  hqe_message :: string
  hqe_statusCode :: nat
  hqe_isGraphQLError :: bool
  hqe_headers :: header_map

datatype exn =
    HttpQueryErr http_query_error
  | ErrorObj js_error
  | ThrownValue jsval

definition bindE :: "'e + 'a \<Rightarrow> ('a \<Rightarrow> 'e + 'b) \<Rightarrow> 'e + 'b" where
  "bindE m f = (case m of Inl e \<Rightarrow> Inl e | Inr x \<Rightarrow> f x)"

definition js_Error :: "string \<Rightarrow> exn" where
  "js_Error msg = ErrorObj \<lparr>err_name = ''Error'', err_message = msg, err_extensions = JUndefined\<rparr>"

text \<open>
  The \<^verbatim>\<open>TypeError\<close> of the engine for spreading \<^verbatim>\<open>undefined\<close> into an array
  literal and for writing a property of a value that is not an object; its message
  is the engine's own.
\<close>

definition js_TypeError :: "string \<Rightarrow> exn" where
  "js_TypeError msg =
     ErrorObj \<lparr>err_name = ''TypeError'', err_message = msg, err_extensions = JUndefined\<rparr>"

subsection \<open>\<^verbatim>\<open>class HeaderMap extends Map<string, string>\<close>\<close>

definition HeaderMap_set :: "string \<Rightarrow> string \<Rightarrow> header_map \<Rightarrow> exn + header_map" where
  "HeaderMap_set key v m =
     (if toLowerCase key \<noteq> key
      then Inl (js_Error (''Headers must be lower-case, unlike '' @ key))
      else Inr (map_set key v m))"

text \<open>
  \<^verbatim>\<open>new HeaderMap(entries)\<close>: the \<^verbatim>\<open>Map\<close> constructor adds the entries in
  order through the \<^verbatim>\<open>set\<close> of the new object, which is the overridden one.
\<close>

fun HeaderMap_adds :: "(string \<times> string) list \<Rightarrow> header_map \<Rightarrow> exn + header_map" where
  "HeaderMap_adds [] m = Inr m"
| "HeaderMap_adds ((k, v) # es) m = bindE (HeaderMap_set k v m) (HeaderMap_adds es)"

definition new_HeaderMap :: "(string \<times> string) list \<Rightarrow> exn + header_map" where
  "new_HeaderMap es = HeaderMap_adds es []"

subsection \<open>\<^verbatim>\<open>class HttpQueryError extends Error\<close>\<close>

record http_response =
  resp_statusCode :: "nat option"
  resp_headers :: header_map
  resp_completeBody :: "string option"
  resp_bodyChunks :: "string list option"

text \<open>The constructor; \<open>None\<close> for the headers is the omitted fourth argument.\<close>

definition new_HttpQueryError ::
  "nat \<Rightarrow> string \<Rightarrow> bool \<Rightarrow> header_map option \<Rightarrow> exn + http_query_error" where
  "new_HttpQueryError statusCode msg isGraphQLError headers =
     bindE (new_HeaderMap (case headers of None \<Rightarrow> [] | Some h \<Rightarrow> map_entries h))
       (\<lambda>h. Inr \<lparr>hqe_message = msg, hqe_statusCode = statusCode,
                 hqe_isGraphQLError = isGraphQLError, hqe_headers = h\<rparr>)"

definition asHTTPGraphQLResponse :: "http_query_error \<Rightarrow> exn + http_response" where
  "asHTTPGraphQLResponse this =
     bindE (new_HeaderMap ((''content-type'', ''text/plain'') # map_entries (hqe_headers this)))
       (\<lambda>h. Inr \<lparr>resp_statusCode = Some (hqe_statusCode this), resp_headers = h,
                 resp_completeBody = Some (hqe_message this), resp_bodyChunks = None\<rparr>)"

text \<open>\<^verbatim>\<open>throw new HttpQueryError(...)\<close>: the constructor may throw first.\<close>

definition throw_HttpQueryError ::
  "nat \<Rightarrow> string \<Rightarrow> bool \<Rightarrow> header_map option \<Rightarrow> exn + 'a" where
  "throw_HttpQueryError statusCode msg isGraphQLError headers =
     bindE (new_HttpQueryError statusCode msg isGraphQLError headers)
       (\<lambda>e. Inl (HttpQueryErr e))"

fun exn_name :: "exn \<Rightarrow> jsval" where
  "exn_name (HttpQueryErr e) = JStr ''HttpQueryError''"
| "exn_name (ErrorObj e) = JStr (err_name e)"
| "exn_name (ThrownValue v) = JUndefined"

definition isHttpQueryError :: "exn \<Rightarrow> bool" where
  "isHttpQueryError e = (exn_name e = JStr ''HttpQueryError'')"

section \<open>Request normalisation\<close>

text \<open>\<^verbatim>\<open>const NODE_ENV = process.env.NODE_ENV ?? ''\<close>, from the process environment.\<close>

definition NODE_ENV :: "string option \<Rightarrow> string" where
  "NODE_ENV process_env = (case process_env of None \<Rightarrow> [] | Some s \<Rightarrow> s)"

text \<open>
  \<^verbatim>\<open>debugFromNodeEnv(nodeEnv: string = NODE_ENV)\<close>: the default applies when the
  argument is \<^verbatim>\<open>undefined\<close>.
\<close>

definition debugFromNodeEnv :: "string option \<Rightarrow> string option \<Rightarrow> bool" where
  "debugFromNodeEnv process_env nodeEnv =
     (let n = (case nodeEnv of None \<Rightarrow> NODE_ENV process_env | Some s \<Rightarrow> s)
      in n \<noteq> ''production'' \<and> n \<noteq> ''test'')"

definition isStringRecord :: "jsval \<Rightarrow> bool" where
  "isStringRecord v = (truthy v \<and> typeof v = ''object'' \<and> \<not> isBuffer v \<and> \<not> isArray v)"

definition isNonEmptyStringRecord :: "jsval \<Rightarrow> bool" where
  "isNonEmptyStringRecord v = (isStringRecord v \<and> length (object_keys v) > 0)"

definition fieldIfString :: "jsval \<Rightarrow> string \<Rightarrow> jsval" where
  "fieldIfString v fieldName =
     (if typeof (get_prop v fieldName) = ''string'' then get_prop v fieldName else JUndefined)"

definition fieldIfRecord :: "jsval \<Rightarrow> string \<Rightarrow> jsval" where
  "fieldIfRecord v fieldName =
     (if isStringRecord (get_prop v fieldName) then get_prop v fieldName else JUndefined)"

text \<open>
  \<^verbatim>\<open>JSON.parse\<close> is the engine's: the first argument, \<open>None\<close> where it throws
  its \<^verbatim>\<open>SyntaxError\<close>.
\<close>

definition jsonParsedFieldIfNonEmptyString ::
  "(string \<Rightarrow> jsval option) \<Rightarrow> jsval \<Rightarrow> string \<Rightarrow> exn + jsval" where
  "jsonParsedFieldIfNonEmptyString JSON_parse v fieldName =
     (if typeof (get_prop v fieldName) = ''string'' \<and> truthy (get_prop v fieldName) then
        (case JSON_parse (js_string (get_prop v fieldName)) of
           None \<Rightarrow>
             throw_HttpQueryError 400
               (''The '' @ fieldName @ '' search parameter contains invalid JSON.'') False None
         | Some hopefullyRecord \<Rightarrow>
             if \<not> isStringRecord hopefullyRecord then
               throw_HttpQueryError 400
                 (''The '' @ fieldName @ '' search parameter should contain a JSON-encoded object.'')
                 False None
             else Inr hopefullyRecord)
      else Inr JUndefined)"

definition query_is_document_message :: string where
  "query_is_document_message =
     ''GraphQL queries must be strings. It looks like you'' @ [CHR 0x27] @ ''re sending the '' @
     ''internal graphql-js representation of a parsed query in your '' @
     ''request instead of a request in the GraphQL query language. You '' @
     ''can convert an AST to a string using the `print` function from '' @
     ''`graphql`, or use a client like `apollo-client` which converts '' @
     ''the internal representation to a string for you.''"

definition ensureQueryIsStringOrMissing :: "jsval \<Rightarrow> exn + unit" where
  "ensureQueryIsStringOrMissing query =
     (if \<not> truthy query \<or> typeof query = ''string'' then Inr ()
      else if get_prop query ''kind'' = JStr ''Document'' then
        throw_HttpQueryError 400 query_is_document_message False None
      else throw_HttpQueryError 400 ''GraphQL queries must be strings.'' False None)"

section \<open>The collaborators\<close>

text \<open>
  The types of \<^verbatim>\<open>@apollo/server-types\<close>, \<^verbatim>\<open>./graphqlOptions\<close> and
  \<^verbatim>\<open>./requestPipeline\<close> as \<open>runHttpQuery\<close> uses them. A logger, a schema and a
  cache are opaque handles.
\<close>

record http_request =
  req_method :: string
  req_headers :: header_map
  req_searchParams :: jsval
  req_body :: jsval

record graphql_request =
  gr_query :: jsval
  gr_operationName :: jsval
  gr_variables :: jsval
  gr_extensions :: jsval
  gr_http :: http_request

text \<open>\<^verbatim>\<open>Pick<HTTPGraphQLResponse, 'headers' | 'statusCode'>\<close>\<close>

record partial_response =
  partial_headers :: header_map
  partial_statusCode :: "nat option"

text \<open>
  \<^verbatim>\<open>GraphQLResponse\<close>: \<open>gres_data\<close> and \<open>gres_extensions\<close> are
  \<open>JUndefined\<close> when the property is missing; \<open>gres_errors\<close> is an array or
  missing, and so is \<open>gres_http\<close>.
\<close>

record graphql_response =
  gres_data :: jsval
  gres_errors :: "jsval list option"
  gres_extensions :: jsval
  gres_http :: "partial_response option"

text \<open>
  A plugin, as far as the hook that the source implements: \<^verbatim>\<open>requestDidStart\<close>
  gives a listener, whose \<^verbatim>\<open>didResolveOperation\<close> receives the resolved
  operation and reads its kind \<^verbatim>\<open>operation.operation\<close>.
\<close>

record request_listener =
  didResolveOperation :: "(string \<Rightarrow> exn + unit) option"

record plugin =
  requestDidStart :: "request_listener option"

datatype logger = Console | Logger nat

datatype cache_policy = NewCachePolicy

record format_options =
  fmt_debug :: "bool option"
  fmt_formatter :: "(exn \<Rightarrow> jsval) option"

text \<open>
  \<^verbatim>\<open>GraphQLServerOptions\<close>: the fields the source reads, and \<open>opt_rest\<close> for
  the others, which it only copies.
\<close>

record options =
  opt_schema :: nat
  opt_logger :: "logger option"
  opt_cache :: "nat option"
  opt_debug :: "bool option"
  opt_nodeEnv :: "string option"
  opt_formatError :: "(exn \<Rightarrow> jsval) option"
  opt_plugins :: "plugin list option"
  opt_rest :: "(string \<times> jsval) list"

text \<open>The application context: an object with its prototype and its own properties.\<close>

record app_context =
  ctx_prototype :: nat
  ctx_fields :: "(string \<times> jsval) list"

record request_context =
  rc_logger :: logger
  rc_schema :: nat
  rc_request :: graphql_request
  rc_response_http :: partial_response
  rc_context :: app_context
  rc_cache :: "nat option"
  rc_debug :: "bool option"
  rc_metrics :: jsval
  rc_overallCachePolicy :: cache_policy

text \<open>
  How \<^verbatim>\<open>await processGraphQLRequest(options, requestContext)\<close> ends: it throws,
  or it returns a response; \<open>Returned response p\<close> gives with \<open>p\<close> the state in
  which the pipeline and its plugins left the \<^verbatim>\<open>partialResponse\<close> object that the
  request context shares with them.
\<close>

datatype pipeline_outcome =
    Returned graphql_response partial_response
  | Threw exn

text \<open>
  What the module imports or takes from the engine: \<^verbatim>\<open>JSON.parse\<close>,
  \<^verbatim>\<open>formatApolloErrors\<close> of \<^verbatim>\<open>./errors\<close>, \<^verbatim>\<open>processGraphQLRequest\<close> of
  \<^verbatim>\<open>./requestPipeline\<close>, and \<^verbatim>\<open>process.env.NODE_ENV\<close>.
\<close>

record externals =
  JSON_parse :: "string \<Rightarrow> jsval option"
  formatApolloErrors :: "exn list \<Rightarrow> format_options \<Rightarrow> jsval list"
  processGraphQLRequest :: "options \<Rightarrow> request_context \<Rightarrow> pipeline_outcome"
  process_env_NODE_ENV :: "string option"

text \<open>The calls of the two collaborators, in the order in which they are made.\<close>

datatype call =
    PipelineCall options request_context
  | FormatterCall "exn list" format_options

section \<open>\<^verbatim>\<open>runHttpQuery\<close>\<close>

text \<open>
  \<^verbatim>\<open>Object.assign(Object.create(Object.getPrototypeOf(object)), object)\<close>
\<close>

definition cloneObject :: "app_context \<Rightarrow> app_context" where
  "cloneObject object = \<lparr>ctx_prototype = ctx_prototype object, ctx_fields = ctx_fields object\<rparr>"

definition serializeGraphQLResponse :: "graphql_response \<Rightarrow> jsval" where
  "serializeGraphQLResponse response =
     JObj [(''errors'', (case gres_errors response of None \<Rightarrow> JUndefined | Some es \<Rightarrow> JArr es)),
           (''data'', gres_data response),
           (''extensions'', gres_extensions response)]"

text \<open>
  The \<^verbatim>\<open>switch (httpRequest.method)\<close> of lines 163 to 219: it throws (\<open>Inl\<close>),
  returns a response from \<open>runHttpQuery\<close> (\<open>Inr (Inl r)\<close>) or leaves
  \<^verbatim>\<open>graphqlRequest\<close> assigned (\<open>Inr (Inr g)\<close>).
\<close>

definition runHttpQuery_switch ::
  "externals \<Rightarrow> http_request \<Rightarrow> exn + (http_response + graphql_request)" where
  "runHttpQuery_switch ext httpRequest =
     (if req_method httpRequest = ''POST'' then
        (if \<not> isNonEmptyStringRecord (req_body httpRequest) then
           bindE (new_HttpQueryError 400
                    ''POST body missing, invalid Content-Type, or JSON object has no keys.''
                    False None)
             (\<lambda>e. bindE (asHTTPGraphQLResponse e) (\<lambda>r. Inr (Inl r)))
         else
           bindE (ensureQueryIsStringOrMissing (get_prop (req_body httpRequest) ''query''))
             (\<lambda>_. Inr (Inr
                \<lparr>gr_query = fieldIfString (req_body httpRequest) ''query'',
                 gr_operationName = fieldIfString (req_body httpRequest) ''operationName'',
                 gr_variables = fieldIfRecord (req_body httpRequest) ''variables'',
                 gr_extensions = fieldIfRecord (req_body httpRequest) ''extensions'',
                 gr_http = httpRequest\<rparr>)))
      else if req_method httpRequest = ''GET'' then
        (if \<not> isNonEmptyStringRecord (req_searchParams httpRequest) then
           bindE (new_HttpQueryError 400 ''GET query missing.'' False None)
             (\<lambda>e. bindE (asHTTPGraphQLResponse e) (\<lambda>r. Inr (Inl r)))
         else
           bindE (ensureQueryIsStringOrMissing (get_prop (req_searchParams httpRequest) ''query''))
             (\<lambda>_. bindE (jsonParsedFieldIfNonEmptyString (JSON_parse ext)
                            (req_searchParams httpRequest) ''variables'')
             (\<lambda>variables. bindE (jsonParsedFieldIfNonEmptyString (JSON_parse ext)
                                    (req_searchParams httpRequest) ''extensions'')
             (\<lambda>extensions. Inr (Inr
                \<lparr>gr_query = fieldIfString (req_searchParams httpRequest) ''query'',
                 gr_operationName = fieldIfString (req_searchParams httpRequest) ''operationName'',
                 gr_variables = variables,
                 gr_extensions = extensions,
                 gr_http = httpRequest\<rparr>)))))
      else
        bindE (new_HeaderMap [(''allow'', ''GET, POST'')])
          (\<lambda>h. bindE (new_HttpQueryError 405 ''Apollo Server supports only GET/POST requests.''
                         False (Some h))
          (\<lambda>e. bindE (asHTTPGraphQLResponse e) (\<lambda>r. Inr (Inl r)))))"

text \<open>
  The plugin of lines 226 to 241, which \<^verbatim>\<open>plugins.unshift\<close> puts first for a
  \<^verbatim>\<open>GET\<close>.
\<close>

definition get_didResolveOperation :: "string \<Rightarrow> exn + unit" where
  "get_didResolveOperation operation =
     (if operation \<noteq> ''query'' then
        bindE (new_HeaderMap [(''allow'', ''POST'')])
          (\<lambda>h. throw_HttpQueryError 405 ''GET supports only query operation'' False (Some h))
      else Inr ())"

definition get_plugin :: plugin where
  "get_plugin =
     \<lparr>requestDidStart = Some \<lparr>didResolveOperation = Some get_didResolveOperation\<rparr>\<rparr>"

text \<open>
  Lines 287 to 317, after the pipeline returned \<open>response\<close> and left the shared
  \<^verbatim>\<open>partialResponse\<close> as \<open>partialResponse\<close>. Spreading
  \<^verbatim>\<open>response.http?.headers.entries()\<close> throws a \<^verbatim>\<open>TypeError\<close> when
  \<^verbatim>\<open>response.http\<close> is missing; \<^verbatim>\<open>||\<close> takes 400 for a status that is
  missing or 0. The headers of the response returned at the end are the shared
  \<^verbatim>\<open>partialResponse.headers\<close> itself, after \<^verbatim>\<open>set\<close>.
\<close>

definition runHttpQuery_respond :: "graphql_response \<Rightarrow> partial_response \<Rightarrow> exn + http_response" where
  "runHttpQuery_respond response partialResponse =
     (if gres_errors response \<noteq> None \<and> typeof (gres_data response) = ''undefined'' then
        (case gres_http response of
           None \<Rightarrow> Inl (js_TypeError ''undefined is not iterable'')
         | Some http \<Rightarrow>
             bindE (new_HeaderMap ((''content-type'', ''application/json'')
                                   # map_entries (partial_headers http)))
               (\<lambda>h. Inr
                  \<lparr>resp_statusCode =
                     Some (case partial_statusCode http of
                             None \<Rightarrow> 400
                           | Some s \<Rightarrow> if s \<noteq> 0 then s else 400),
                   resp_headers = h,
                   resp_completeBody =
                     Some (prettyJSONStringify
                       (JObj [(''errors'', (case gres_errors response of
                                              None \<Rightarrow> JUndefined | Some es \<Rightarrow> JArr es)),
                              (''extensions'', gres_extensions response)])),
                   resp_bodyChunks = None\<rparr>))
      else
        (let body = prettyJSONStringify (serializeGraphQLResponse response) in
         bindE (HeaderMap_set ''content-length'' (string_of_nat (length body))
                  (partial_headers partialResponse))
           (\<lambda>h. Inr
              \<lparr>resp_statusCode = partial_statusCode partialResponse,
               resp_headers = h,
               resp_completeBody = Some body,
               resp_bodyChunks = None\<rparr>)))"

text \<open>
  Lines 221 to 249: the copy of the plugin list, with the plugin for \<^verbatim>\<open>GET\<close>
  put first, and the local copy of \<^verbatim>\<open>options\<close> that holds it. The caller's
  object and its plugin array are not written.
\<close>

definition local_options :: "http_request \<Rightarrow> options \<Rightarrow> options" where
  "local_options httpRequest options =
     (let plugins0 = (case opt_plugins options of None \<Rightarrow> [] | Some ps \<Rightarrow> ps);
          plugins = (if req_method httpRequest = ''GET'' then get_plugin # plugins0 else plugins0)
      in options\<lparr>opt_plugins := Some plugins\<rparr>)"

text \<open>Lines 257 to 284: the request context around the shared \<^verbatim>\<open>partialResponse\<close>.\<close>

definition new_requestContext ::
  "options \<Rightarrow> graphql_request \<Rightarrow> partial_response \<Rightarrow> app_context \<Rightarrow> request_context" where
  "new_requestContext options graphqlRequest partialResponse context_arg =
     \<lparr>rc_logger = (case opt_logger options of None \<Rightarrow> Console | Some l \<Rightarrow> l),
      rc_schema = opt_schema options,
      rc_request = graphqlRequest,
      rc_response_http = partialResponse,
      rc_context = cloneObject context_arg,
      rc_cache = opt_cache options,
      rc_debug = opt_debug options,
      rc_metrics = JObj [],
      rc_overallCachePolicy = NewCachePolicy\<rparr>"

text \<open>
  The body of the \<^verbatim>\<open>try\<close> from line 161 on, with the calls it makes. \<open>options\<close>
  is the caller's object after lines 157 to 159.
\<close>

definition runHttpQuery_try ::
  "externals \<Rightarrow> http_request \<Rightarrow> app_context \<Rightarrow> options \<Rightarrow> (exn + http_response) \<times> call list" where
  "runHttpQuery_try ext httpRequest context_arg options =
     (case runHttpQuery_switch ext httpRequest of
        Inl e \<Rightarrow> (Inl e, [])
      | Inr (Inl r) \<Rightarrow> (Inr r, [])
      | Inr (Inr graphqlRequest) \<Rightarrow>
          (let options' = local_options httpRequest options
           in case new_HeaderMap [(''content-type'', ''application/json'')] of
                Inl e \<Rightarrow> (Inl e, [])
              | Inr h \<Rightarrow>
                  (let partialResponse = \<lparr>partial_headers = h, partial_statusCode = None\<rparr>;
                       requestContext =
                         new_requestContext options' graphqlRequest partialResponse context_arg
                   in case processGraphQLRequest ext options' requestContext of
                        Threw e \<Rightarrow> (Inl e, [PipelineCall options' requestContext])
                      | Returned response partialResponse' \<Rightarrow>
                          (runHttpQuery_respond response partialResponse',
                           [PipelineCall options' requestContext]))))"

text \<open>
  Lines 157 to 159: the write to the caller's \<^verbatim>\<open>options\<close> object.
\<close>

definition default_debug :: "externals \<Rightarrow> options \<Rightarrow> options" where
  "default_debug ext options =
     (if opt_debug options = None then
        options\<lparr>opt_debug :=
          Some (debugFromNodeEnv (process_env_NODE_ENV ext) (opt_nodeEnv options))\<rparr>
      else options)"

text \<open>
  What a call of \<open>runHttpQuery\<close> leaves: how its promise settles (\<open>Inl\<close> is a
  rejection), the caller's \<^verbatim>\<open>options\<close> object after the call, and the calls of
  the collaborators.
\<close>

record run_result =
  run_outcome :: "exn + http_response"
  run_callerOptions :: options
  run_calls :: "call list"

text \<open>
  The \<^verbatim>\<open>catch\<close> block of lines 318 to 334, for what the \<^verbatim>\<open>try\<close> threw after
  \<open>calls\<close>.
\<close>

definition runHttpQuery_catch :: "externals \<Rightarrow> options \<Rightarrow> exn \<Rightarrow> call list \<Rightarrow> run_result" where
  "runHttpQuery_catch ext options error calls =
     (case error of
        HttpQueryErr e \<Rightarrow>
          \<lparr>run_outcome = asHTTPGraphQLResponse e, run_callerOptions = options,
           run_calls = calls\<rparr>
      | _ \<Rightarrow>
          (let fmt = \<lparr>fmt_debug = opt_debug options, fmt_formatter = opt_formatError options\<rparr>
           in \<lparr>run_outcome =
                 bindE (new_HeaderMap [(''content-type'', ''application/json'')])
                   (\<lambda>h. Inr
                      \<lparr>resp_statusCode = Some 500,
                       resp_headers = h,
                       resp_completeBody =
                         Some (prettyJSONStringify
                           (JObj [(''errors'', JArr (formatApolloErrors ext [error] fmt))])),
                       resp_bodyChunks = None\<rparr>),
               run_callerOptions = options,
               run_calls = calls @ [FormatterCall [error] fmt]\<rparr>))"

definition runHttpQuery :: "externals \<Rightarrow> http_request \<Rightarrow> app_context \<Rightarrow> options \<Rightarrow> run_result" where
  "runHttpQuery ext httpRequest context_arg options0 =
     (let options = default_debug ext options0
      in case runHttpQuery_try ext httpRequest context_arg options of
           (Inr r, calls) \<Rightarrow>
             \<lparr>run_outcome = Inr r, run_callerOptions = options, run_calls = calls\<rparr>
         | (Inl error, calls) \<Rightarrow> runHttpQuery_catch ext options error calls)"

section \<open>\<^verbatim>\<open>executeContextFunction\<close>\<close>

fun exn_message :: "exn \<Rightarrow> string" where
  "exn_message (HttpQueryErr e) = hqe_message e"
| "exn_message (ErrorObj e) = err_message e"
| "exn_message (ThrownValue v) = []"

fun exn_set_message :: "string \<Rightarrow> exn \<Rightarrow> exn" where
  "exn_set_message m (HttpQueryErr e) = HttpQueryErr (e\<lparr>hqe_message := m\<rparr>)"
| "exn_set_message m (ErrorObj e) = ErrorObj (e\<lparr>err_message := m\<rparr>)"
| "exn_set_message m (ThrownValue v) = ThrownValue v"

fun exn_extensions :: "exn \<Rightarrow> jsval" where
  "exn_extensions (HttpQueryErr e) = JUndefined"
| "exn_extensions (ErrorObj e) = err_extensions e"
| "exn_extensions (ThrownValue v) = JUndefined"



section \<open>Auxiliary notions\<close>

text \<open>The invariant of a \<open>HeaderMap\<close>: every key is its own lower-case form.\<close>

definition lower_case_keys :: "header_map \<Rightarrow> bool" where
  "lower_case_keys m = (\<forall>k\<in>set (map fst m). toLowerCase k = k)"

text \<open>The entries \<open>es\<close> written into \<open>m\<close> in order with \<^verbatim>\<open>Map.prototype.set\<close>.\<close>

definition map_set_all :: "(string \<times> string) list \<Rightarrow> header_map \<Rightarrow> header_map" where
  "map_set_all es m = fold (\<lambda>e. map_set (fst e) (snd e)) es m"

text \<open>
  The response that \<open>asHTTPGraphQLResponse\<close> makes of an \<open>HttpQueryError\<close>
  without headers of its own.
\<close>

definition plain_response :: "nat \<Rightarrow> string \<Rightarrow> http_response" where
  "plain_response status msg =
     \<lparr>resp_statusCode = Some status, resp_headers = [(''content-type'', ''text/plain'')],
      resp_completeBody = Some msg, resp_bodyChunks = None\<rparr>"

text \<open>
  Modelled from the spec: the execution pipeline \<^verbatim>\<open>processGraphQLRequest\<close> of
  \<^verbatim>\<open>./requestPipeline\<close>, which is not among the sources, as far as section 4.4
  describes what it does with the plugin list: once it has resolved which operation
  will run, it gives the operation to the \<^verbatim>\<open>didResolveOperation\<close> hook of each
  plugin in the order of the list, and a Protocol Error that a hook fails with ends
  the call of the pipeline. \<open>resolve\<close> is the operation kind it resolves for a
  request and \<open>execute\<close> is the rest of the pipeline.
\<close>

fun invoke_didResolveOperation :: "plugin list \<Rightarrow> string \<Rightarrow> exn + unit" where
  "invoke_didResolveOperation [] operation = Inr ()"
| "invoke_didResolveOperation (p # ps) operation =
     (case requestDidStart p of
        None \<Rightarrow> invoke_didResolveOperation ps operation
      | Some listener \<Rightarrow>
          (case didResolveOperation listener of
             None \<Rightarrow> invoke_didResolveOperation ps operation
           | Some hook \<Rightarrow>
               bindE (hook operation) (\<lambda>_. invoke_didResolveOperation ps operation)))"

text \<open>
  Modelled from the spec: a pipeline that resolves the operation, runs the hooks as
  above, and goes on only when none of them failed.
\<close>

definition resolving_pipeline ::
  "(graphql_request \<Rightarrow> string) \<Rightarrow> (options \<Rightarrow> request_context \<Rightarrow> pipeline_outcome)
     \<Rightarrow> options \<Rightarrow> request_context \<Rightarrow> pipeline_outcome" where
  "resolving_pipeline resolve execute options requestContext =
     (case invoke_didResolveOperation
             (case opt_plugins options of None \<Rightarrow> [] | Some ps \<Rightarrow> ps)
             (resolve (rc_request requestContext)) of
        Inl e \<Rightarrow> Threw e
      | Inr _ \<Rightarrow> execute options requestContext)"

section \<open>Example values\<close>

text \<open>
  Concrete collaborators and inputs, on which the theorems below are instantiated. The
  parser knows three texts, the formatter keeps the message of each error.
\<close>

definition example_JSON_parse :: "string \<Rightarrow> jsval option" where
  "example_JSON_parse s =
     (if s = ''{}'' then Some (JObj [])
      else if s = ''[]'' then Some (JArr [])
      else if s = ''1'' then Some (JNum 1)
      else None)"

definition example_formatApolloErrors :: "exn list \<Rightarrow> format_options \<Rightarrow> jsval list" where
  "example_formatApolloErrors errors fmt =
     map (\<lambda>e. JObj [(''message'', JStr (exn_message e))]) errors"

definition example_externals ::
  "(options \<Rightarrow> request_context \<Rightarrow> pipeline_outcome) \<Rightarrow> externals" where
  "example_externals pipeline =
     \<lparr>JSON_parse = example_JSON_parse,
      formatApolloErrors = example_formatApolloErrors,
      processGraphQLRequest = pipeline,
      process_env_NODE_ENV = None\<rparr>"

definition example_options :: options where
  "example_options =
     \<lparr>opt_schema = 0, opt_logger = None, opt_cache = None, opt_debug = None,
      opt_nodeEnv = Some ''production'', opt_formatError = None, opt_plugins = None,
      opt_rest = []\<rparr>"

definition example_context :: app_context where
  "example_context = \<lparr>ctx_prototype = 0, ctx_fields = []\<rparr>"

definition example_request :: "string \<Rightarrow> jsval \<Rightarrow> jsval \<Rightarrow> http_request" where
  "example_request m searchParams body =
     \<lparr>req_method = m, req_headers = [], req_searchParams = searchParams, req_body = body\<rparr>"

definition example_data_response :: graphql_response where
  "example_data_response =
     \<lparr>gres_data = JObj [(''hello'', JStr ''world'')], gres_errors = None,
      gres_extensions = JUndefined, gres_http = None\<rparr>"

definition example_post_request :: http_request where
  "example_post_request =
     example_request ''POST'' (JObj []) (JObj [(''query'', JStr ''{ hello }'')])"


definition example_post_graphql_request :: graphql_request where
  "example_post_graphql_request =
     \<lparr>gr_query = JStr ''{ hello }'', gr_operationName = JUndefined,
      gr_variables = JUndefined, gr_extensions = JUndefined,
      gr_http = example_post_request\<rparr>"

definition example_post_requestContext :: request_context where
  "example_post_requestContext =
     new_requestContext (example_options\<lparr>opt_debug := Some False, opt_plugins := Some []\<rparr>)
       example_post_graphql_request
       \<lparr>partial_headers = [(''content-type'', ''application/json'')], partial_statusCode = None\<rparr>
       example_context"

definition example_failed_response :: "partial_response option \<Rightarrow> graphql_response" where
  "example_failed_response http =
     \<lparr>gres_data = JUndefined,
      gres_errors = Some [JObj [(''message'', JStr ''Syntax Error'')]],
      gres_extensions = JUndefined,
      gres_http = http\<rparr>"

definition example_get_request :: "jsval \<Rightarrow> http_request" where
  "example_get_request searchParams = example_request ''GET'' searchParams JUndefined"



definition example_mutation_request :: http_request where
  "example_mutation_request =
     example_get_request (JObj [(''query'', JStr ''mutation { noop }'')])"

definition example_mutation_pipeline :: "options \<Rightarrow> request_context \<Rightarrow> pipeline_outcome" where
  "example_mutation_pipeline =
     resolving_pipeline (\<lambda>g. ''mutation'')
       (\<lambda>opts rc. Returned example_data_response (rc_response_http rc))"

section \<open>Basic facts\<close>

lemma bindE_Inl [simp]: "bindE (Inl e) f = Inl e"
  by (simp add: bindE_def)

lemma bindE_Inr [simp]: "bindE (Inr x) f = f x"
  by (simp add: bindE_def)

lemma lower_char_fixed: "(lower_char c = c) = (\<not> is_upper c)"
  by (auto simp: lower_char_def is_upper_def upper_letters_def lower_letters_def)

lemma toLowerCase_fixed: "(toLowerCase s = s) = (\<forall>c\<in>set s. \<not> is_upper c)"
  by (induction s) (auto simp: toLowerCase_def lower_char_fixed)














section \<open>The header collection rejects upper-case names\<close>



lemma toLowerCase_content_type [simp]: "toLowerCase ''content-type'' = ''content-type''"
  by (simp add: toLowerCase_fixed is_upper_def upper_letters_def)

lemma toLowerCase_content_length [simp]: "toLowerCase ''content-length'' = ''content-length''"
  by (simp add: toLowerCase_fixed is_upper_def upper_letters_def)

lemma toLowerCase_allow [simp]: "toLowerCase ''allow'' = ''allow''"
  by (simp add: toLowerCase_fixed is_upper_def upper_letters_def)

lemma HeaderMap_adds_lower:
  "lower_case_keys es \<Longrightarrow> HeaderMap_adds es m = Inr (map_set_all es m)"
proof (induction es arbitrary: m)
  case Nil
  show ?case by (simp add: map_set_all_def)
next
  case (Cons e es)
  obtain k v where e: "e = (k, v)" by (cases e)
  from Cons.prems have k: "toLowerCase k = k" and rest: "lower_case_keys es"
    by (simp_all add: lower_case_keys_def e)
  show ?case
    using Cons.IH [OF rest] by (simp add: e HeaderMap_set_def k map_set_all_def)
qed

lemma HeaderMap_adds_upper:
  "\<not> lower_case_keys es \<Longrightarrow> \<exists>msg. HeaderMap_adds es m = Inl (js_Error msg)"
proof (induction es arbitrary: m)
  case Nil
  then show ?case by (simp add: lower_case_keys_def)
next
  case (Cons e es)
  obtain k v where e: "e = (k, v)" by (cases e)
  show ?case
  proof (cases "toLowerCase k = k")
    case True
    with Cons.prems have "\<not> lower_case_keys es"
      by (simp add: lower_case_keys_def e)
    from Cons.IH [OF this] show ?thesis
      by (simp add: e HeaderMap_set_def True)
  next
    case False
    then show ?thesis by (auto simp: e HeaderMap_set_def)
  qed
qed

lemma new_HeaderMap_content_type:
  "lower_case_keys es \<Longrightarrow>
   new_HeaderMap ((''content-type'', v) # es) = Inr (map_set_all es [(''content-type'', v)])"
  using HeaderMap_adds_lower [of es "[(''content-type'', v)]"]
  by (simp add: new_HeaderMap_def HeaderMap_set_def)

lemma new_HeaderMap_single_content_type [simp]:
  "new_HeaderMap [(''content-type'', v)] = Inr [(''content-type'', v)]"
  by (simp add: new_HeaderMap_def HeaderMap_set_def)

lemma new_HeaderMap_single_allow [simp]:
  "new_HeaderMap [(''allow'', v)] = Inr [(''allow'', v)]"
  by (simp add: new_HeaderMap_def HeaderMap_set_def)

lemma new_HeaderMap_Nil [simp]: "new_HeaderMap [] = Inr []"
  by (simp add: new_HeaderMap_def)

lemma new_HttpQueryError_None [simp]:
  "new_HttpQueryError s msg g None =
     Inr \<lparr>hqe_message = msg, hqe_statusCode = s, hqe_isGraphQLError = g, hqe_headers = []\<rparr>"
  by (simp add: new_HttpQueryError_def)

lemma new_HttpQueryError_allow [simp]:
  "new_HttpQueryError s msg g (Some [(''allow'', v)]) =
     Inr \<lparr>hqe_message = msg, hqe_statusCode = s, hqe_isGraphQLError = g,
          hqe_headers = [(''allow'', v)]\<rparr>"
  by (simp add: new_HttpQueryError_def map_entries_def)

lemma asHTTPGraphQLResponse_lower:
  "lower_case_keys (hqe_headers e) \<Longrightarrow>
   asHTTPGraphQLResponse e =
     Inr \<lparr>resp_statusCode = Some (hqe_statusCode e),
          resp_headers = map_set_all (hqe_headers e) [(''content-type'', ''text/plain'')],
          resp_completeBody = Some (hqe_message e), resp_bodyChunks = None\<rparr>"
  by (simp add: asHTTPGraphQLResponse_def map_entries_def new_HeaderMap_content_type)

lemma lower_case_keys_Nil [simp]: "lower_case_keys []"
  by (simp add: lower_case_keys_def)

lemma lower_case_keys_allow [simp]: "lower_case_keys [(''allow'', v)]"
  by (simp add: lower_case_keys_def)

lemma map_set_all_Nil [simp]: "map_set_all [] m = m"
  by (simp add: map_set_all_def)

lemma map_set_all_Cons [simp]: "map_set_all (e # es) m = map_set_all es (map_set (fst e) (snd e) m)"
  by (simp add: map_set_all_def)

lemma throw_HttpQueryError_None [simp]:
  "throw_HttpQueryError s msg g None =
     Inl (HttpQueryErr \<lparr>hqe_message = msg, hqe_statusCode = s, hqe_isGraphQLError = g,
                        hqe_headers = []\<rparr>)"
  by (simp add: throw_HttpQueryError_def)

lemma isStringRecord_iff: "isStringRecord v = (\<exists>kvs. v = JObj kvs)"
  by (cases v) (simp_all add: isStringRecord_def)

lemma isNonEmptyStringRecord_iff: "isNonEmptyStringRecord v = (\<exists>kvs. v = JObj kvs \<and> kvs \<noteq> [])"
  by (cases v) (auto simp: isNonEmptyStringRecord_def isStringRecord_def)




lemma bindE_eq_Inr: "(bindE m f = Inr z) = (\<exists>y. m = Inr y \<and> f y = Inr z)"
  by (cases m) simp_all


lemma switch_other:
  "req_method req \<noteq> ''POST'' \<Longrightarrow> req_method req \<noteq> ''GET'' \<Longrightarrow>
   runHttpQuery_switch ext req =
     Inr (Inl \<lparr>resp_statusCode = Some 405,
               resp_headers = [(''content-type'', ''text/plain''), (''allow'', ''GET, POST'')],
               resp_completeBody = Some ''Apollo Server supports only GET/POST requests.'',
               resp_bodyChunks = None\<rparr>)"
  by (simp add: runHttpQuery_switch_def asHTTPGraphQLResponse_lower)

lemma switch_post_invalid:
  "req_method req = ''POST'' \<Longrightarrow> \<not> isNonEmptyStringRecord (req_body req) \<Longrightarrow>
   runHttpQuery_switch ext req =
     Inr (Inl \<lparr>resp_statusCode = Some 400,
               resp_headers = [(''content-type'', ''text/plain'')],
               resp_completeBody =
                 Some ''POST body missing, invalid Content-Type, or JSON object has no keys.'',
               resp_bodyChunks = None\<rparr>)"
  by (simp add: runHttpQuery_switch_def asHTTPGraphQLResponse_lower)

lemma run_early_return:
  "runHttpQuery_switch ext req = Inr (Inl r) \<Longrightarrow>
   runHttpQuery ext req ctx options0 =
     \<lparr>run_outcome = Inr r, run_callerOptions = default_debug ext options0, run_calls = []\<rparr>"
  by (simp add: runHttpQuery_def runHttpQuery_try_def)


lemma run_throw:
  "runHttpQuery_switch ext req = Inl x \<Longrightarrow>
   runHttpQuery ext req ctx options0 = runHttpQuery_catch ext (default_debug ext options0) x []"
  by (simp add: runHttpQuery_def runHttpQuery_try_def)

lemma run_continue:
  "runHttpQuery_switch ext req = Inr (Inr g) \<Longrightarrow>
   runHttpQuery ext req ctx options0 =
     (let options = default_debug ext options0;
          options' = local_options req options;
          rc = new_requestContext options' g
                 \<lparr>partial_headers = [(''content-type'', ''application/json'')],
                  partial_statusCode = None\<rparr> ctx
      in case processGraphQLRequest ext options' rc of
           Threw e \<Rightarrow> runHttpQuery_catch ext options e [PipelineCall options' rc]
         | Returned response p \<Rightarrow>
             (case runHttpQuery_respond response p of
                Inr r \<Rightarrow> \<lparr>run_outcome = Inr r, run_callerOptions = options,
                          run_calls = [PipelineCall options' rc]\<rparr>
              | Inl e \<Rightarrow> runHttpQuery_catch ext options e [PipelineCall options' rc]))"
  by (simp add: runHttpQuery_def runHttpQuery_try_def Let_def
      split: pipeline_outcome.splits sum.splits)

lemma catch_callerOptions [simp]:
  "run_callerOptions (runHttpQuery_catch ext options x calls) = options"
  by (simp add: runHttpQuery_catch_def Let_def split: exn.splits)

lemma catch_calls:
  "run_calls (runHttpQuery_catch ext options x calls) =
     (case x of HttpQueryErr e \<Rightarrow> calls
      | _ \<Rightarrow> calls @ [FormatterCall [x] \<lparr>fmt_debug = opt_debug options,
                                          fmt_formatter = opt_formatError options\<rparr>])"
  by (simp add: runHttpQuery_catch_def Let_def split: exn.splits)

lemma switch_cases:
  obtains x where "runHttpQuery_switch ext req = Inl x"
  | r where "runHttpQuery_switch ext req = Inr (Inl r)"
  | g where "runHttpQuery_switch ext req = Inr (Inr g)"
proof (cases "runHttpQuery_switch ext req")
  case (Inl x)
  then show ?thesis using that(1) by blast
next
  case (Inr y)
  then show ?thesis using that(2,3) by (cases y) blast+
qed

lemma run_callerOptions_eq: "run_callerOptions (runHttpQuery ext req ctx options0) = default_debug ext options0"
proof (cases ext req rule: switch_cases)
  case (1 x)
  then show ?thesis by (simp add: run_throw)
next
  case (2 r)
  then show ?thesis by (simp add: run_early_return)
next
  case (3 g)
  then show ?thesis
    by (simp add: run_continue Let_def split: pipeline_outcome.splits sum.splits)
qed

lemma run_calls_pipeline:
  assumes "PipelineCall options' rc \<in> set (run_calls (runHttpQuery ext req ctx options0))"
  shows "\<exists>g. runHttpQuery_switch ext req = Inr (Inr g)
             \<and> options' = local_options req (default_debug ext options0)
             \<and> rc = new_requestContext options' g
                      \<lparr>partial_headers = [(''content-type'', ''application/json'')],
                       partial_statusCode = None\<rparr> ctx"
proof (cases ext req rule: switch_cases)
  case (1 x)
  with assms show ?thesis by (simp add: run_throw catch_calls split: exn.splits)
next
  case (2 r)
  with assms show ?thesis by (simp add: run_early_return)
next
  case (3 g)
  with assms show ?thesis
    by (auto simp: run_continue Let_def catch_calls
        split: pipeline_outcome.splits sum.splits exn.splits)
qed

section \<open>Methods other than GET and POST\<close>

text \<open>
  Claim C3. For a request whose method is neither \<^verbatim>\<open>GET\<close> nor \<^verbatim>\<open>POST\<close>,
  \<open>runHttpQuery\<close> returns status 405 with the header \<^verbatim>\<open>allow: GET, POST\<close>
  and the body \<^verbatim>\<open>Apollo Server supports only GET/POST requests.\<close>, and it calls
  neither the pipeline nor the formatter.
\<close>

theorem other_methods_rejected:
  assumes "req_method req \<noteq> ''GET''" and "req_method req \<noteq> ''POST''"
  shows "run_outcome (runHttpQuery ext req ctx options0) =
           Inr \<lparr>resp_statusCode = Some 405,
                resp_headers = [(''content-type'', ''text/plain''), (''allow'', ''GET, POST'')],
                resp_completeBody = Some ''Apollo Server supports only GET/POST requests.'',
                resp_bodyChunks = None\<rparr>
         \<and> run_calls (runHttpQuery ext req ctx options0) = []"
  using assms by (simp add: run_early_return [OF switch_other])

theorem other_methods_rejected_witness:
  "run_outcome (runHttpQuery (example_externals (\<lambda>opts rc. Threw (ThrownValue JNull)))
       (example_request ''PUT'' (JObj []) JUndefined) example_context example_options) =
     Inr \<lparr>resp_statusCode = Some 405,
          resp_headers = [(''content-type'', ''text/plain''), (''allow'', ''GET, POST'')],
          resp_completeBody = Some ''Apollo Server supports only GET/POST requests.'',
          resp_bodyChunks = None\<rparr>
   \<and> run_calls (runHttpQuery (example_externals (\<lambda>opts rc. Threw (ThrownValue JNull)))
       (example_request ''PUT'' (JObj []) JUndefined) example_context example_options) = []"
  using other_methods_rejected [of "example_request ''PUT'' (JObj []) JUndefined"
      "example_externals (\<lambda>opts rc. Threw (ThrownValue JNull))" example_context example_options]
  by (simp add: example_request_def)

section \<open>A POST without a non-empty object as body\<close>

text \<open>
  Claim C4. For a \<^verbatim>\<open>POST\<close> whose body is not an object with at least one key
  (a missing or null body, the empty object, an array, a buffer, a string),
  \<open>runHttpQuery\<close> returns status 400 with the body
  \<^verbatim>\<open>POST body missing, invalid Content-Type, or JSON object has no keys.\<close> and
  calls neither the pipeline nor the formatter.
\<close>

theorem post_body_rejected:
  assumes "req_method req = ''POST''"
    and "\<forall>kvs. req_body req = JObj kvs \<longrightarrow> kvs = []"
  shows "run_outcome (runHttpQuery ext req ctx options0) =
           Inr \<lparr>resp_statusCode = Some 400,
                resp_headers = [(''content-type'', ''text/plain'')],
                resp_completeBody =
                  Some ''POST body missing, invalid Content-Type, or JSON object has no keys.'',
                resp_bodyChunks = None\<rparr>
         \<and> run_calls (runHttpQuery ext req ctx options0) = []"
proof -
  from assms(2) have "\<not> isNonEmptyStringRecord (req_body req)"
    by (auto simp: isNonEmptyStringRecord_iff)
  from run_early_return [OF switch_post_invalid [OF assms(1) this]] show ?thesis
    by simp
qed

theorem post_body_rejected_witness:
  "list_all (\<lambda>b.
     run_outcome (runHttpQuery (example_externals (\<lambda>opts rc. Threw (ThrownValue JNull)))
         (example_request ''POST'' (JObj []) b) example_context example_options) =
       Inr \<lparr>resp_statusCode = Some 400,
            resp_headers = [(''content-type'', ''text/plain'')],
            resp_completeBody =
              Some ''POST body missing, invalid Content-Type, or JSON object has no keys.'',
            resp_bodyChunks = None\<rparr>
     \<and> run_calls (runHttpQuery (example_externals (\<lambda>opts rc. Threw (ThrownValue JNull)))
         (example_request ''POST'' (JObj []) b) example_context example_options) = [])
   [JUndefined, JNull, JObj [], JArr [JObj [(''query'', JStr ''{ hello }'')]],
    JBuf [123, 125], JStr ''{}'']"
  using post_body_rejected [of "example_request ''POST'' (JObj []) b"
      "example_externals (\<lambda>opts rc. Threw (ThrownValue JNull))" example_context example_options
      for b]
  by (simp add: example_request_def)


section \<open>The default of \<open>debug\<close> is written to the caller's options\<close>

lemma default_debug_idem: "opt_debug options \<noteq> None \<Longrightarrow> default_debug ext options = options"
  by (simp add: default_debug_def)

lemma default_debug_defined: "opt_debug (default_debug ext options) \<noteq> None"
  by (simp add: default_debug_def)

text \<open>
  Claim C10. When \<^verbatim>\<open>options.debug\<close> is undefined, \<open>runHttpQuery\<close> writes
  the default derived from \<^verbatim>\<open>nodeEnv\<close> (true unless it is \<^verbatim>\<open>production\<close> or
  \<^verbatim>\<open>test\<close>) to the caller's options object, whatever the request is. No other
  field of that object changes, a later call with the same object leaves it as it
  is, and the local copy that the pipeline receives carries the value written.
\<close>

theorem debug_default_written_to_caller:
  "run_callerOptions (runHttpQuery ext req ctx options0) =
     (if opt_debug options0 = None
      then options0\<lparr>opt_debug :=
             Some (debugFromNodeEnv (process_env_NODE_ENV ext) (opt_nodeEnv options0))\<rparr>
      else options0)
   \<and> debugFromNodeEnv (process_env_NODE_ENV ext) (opt_nodeEnv options0) =
       ((case opt_nodeEnv options0 of
           None \<Rightarrow> (case process_env_NODE_ENV ext of None \<Rightarrow> [] | Some s \<Rightarrow> s)
         | Some s \<Rightarrow> s) \<notin> {''production'', ''test''})
   \<and> (run_callerOptions (runHttpQuery ext req ctx options0))\<lparr>opt_debug := opt_debug options0\<rparr>
       = options0
   \<and> (\<forall>ext' req' ctx'.
         run_callerOptions (runHttpQuery ext' req' ctx'
           (run_callerOptions (runHttpQuery ext req ctx options0)))
         = run_callerOptions (runHttpQuery ext req ctx options0))
   \<and> (\<forall>options' rc.
         PipelineCall options' rc \<in> set (run_calls (runHttpQuery ext req ctx options0)) \<longrightarrow>
           opt_debug options' = opt_debug (run_callerOptions (runHttpQuery ext req ctx options0))
           \<and> rc_debug rc = opt_debug options'
           \<and> options'\<lparr>opt_plugins := opt_plugins options0\<rparr>
               = run_callerOptions (runHttpQuery ext req ctx options0))"
proof (intro conjI allI impI)
  show "run_callerOptions (runHttpQuery ext req ctx options0) =
     (if opt_debug options0 = None
      then options0\<lparr>opt_debug :=
             Some (debugFromNodeEnv (process_env_NODE_ENV ext) (opt_nodeEnv options0))\<rparr>
      else options0)"
    by (simp add: run_callerOptions_eq default_debug_def)
  show "debugFromNodeEnv (process_env_NODE_ENV ext) (opt_nodeEnv options0) =
       ((case opt_nodeEnv options0 of
           None \<Rightarrow> (case process_env_NODE_ENV ext of None \<Rightarrow> [] | Some s \<Rightarrow> s)
         | Some s \<Rightarrow> s) \<notin> {''production'', ''test''})"
    by (simp add: debugFromNodeEnv_def NODE_ENV_def Let_def split: option.splits)
  show "(run_callerOptions (runHttpQuery ext req ctx options0))\<lparr>opt_debug := opt_debug options0\<rparr>
       = options0"
    by (simp add: run_callerOptions_eq default_debug_def)
  show "run_callerOptions (runHttpQuery ext' req' ctx'
           (run_callerOptions (runHttpQuery ext req ctx options0)))
         = run_callerOptions (runHttpQuery ext req ctx options0)" for ext' req' ctx'
    by (simp add: run_callerOptions_eq default_debug_idem default_debug_defined)
next
  fix options' rc
  assume "PipelineCall options' rc \<in> set (run_calls (runHttpQuery ext req ctx options0))"
  from run_calls_pipeline [OF this] obtain g where
    o: "options' = local_options req (default_debug ext options0)"
    and rc: "rc = new_requestContext options' g
                      \<lparr>partial_headers = [(''content-type'', ''application/json'')],
                       partial_statusCode = None\<rparr> ctx"
    by blast
  show "opt_debug options' = opt_debug (run_callerOptions (runHttpQuery ext req ctx options0))"
    by (simp add: o run_callerOptions_eq local_options_def Let_def)
  show "rc_debug rc = opt_debug options'"
    by (simp add: rc new_requestContext_def)
  show "options'\<lparr>opt_plugins := opt_plugins options0\<rparr>
               = run_callerOptions (runHttpQuery ext req ctx options0)"
    by (simp add: o run_callerOptions_eq local_options_def Let_def default_debug_def)
qed

theorem debug_default_written_to_caller_witness:
  "run_callerOptions (runHttpQuery
       (example_externals (\<lambda>opts rc. Returned example_data_response (rc_response_http rc)))
       (example_request ''POST'' (JObj []) (JObj [(''query'', JStr ''{ hello }'')]))
       example_context example_options)
     = example_options\<lparr>opt_debug := Some False\<rparr>
   \<and> run_calls (runHttpQuery
       (example_externals (\<lambda>opts rc. Returned example_data_response (rc_response_http rc)))
       (example_request ''POST'' (JObj []) (JObj [(''query'', JStr ''{ hello }'')]))
       example_context example_options)
     = [PipelineCall (example_options\<lparr>opt_debug := Some False, opt_plugins := Some []\<rparr>)
          (new_requestContext (example_options\<lparr>opt_debug := Some False, opt_plugins := Some []\<rparr>)
             \<lparr>gr_query = JStr ''{ hello }'', gr_operationName = JUndefined,
              gr_variables = JUndefined, gr_extensions = JUndefined,
              gr_http = example_request ''POST'' (JObj []) (JObj [(''query'', JStr ''{ hello }'')])\<rparr>
             \<lparr>partial_headers = [(''content-type'', ''application/json'')],
              partial_statusCode = None\<rparr>
             example_context)]
   \<and> opt_debug (example_options\<lparr>opt_debug := Some False, opt_plugins := Some []\<rparr>)
       = opt_debug (run_callerOptions (runHttpQuery
       (example_externals (\<lambda>opts rc. Returned example_data_response (rc_response_http rc)))
       (example_request ''POST'' (JObj []) (JObj [(''query'', JStr ''{ hello }'')]))
       example_context example_options))"
proof -
  let ?ext = "example_externals (\<lambda>opts rc. Returned example_data_response (rc_response_http rc))"
  let ?req = "example_request ''POST'' (JObj []) (JObj [(''query'', JStr ''{ hello }'')])"
  have sw: "runHttpQuery_switch ?ext ?req =
      Inr (Inr \<lparr>gr_query = JStr ''{ hello }'', gr_operationName = JUndefined,
              gr_variables = JUndefined, gr_extensions = JUndefined, gr_http = ?req\<rparr>)"
    by (simp add: runHttpQuery_switch_def example_request_def isNonEmptyStringRecord_iff
        ensureQueryIsStringOrMissing_def fieldIfString_def fieldIfRecord_def isStringRecord_iff)
  have calls: "run_calls (runHttpQuery ?ext ?req example_context example_options)
     = [PipelineCall (example_options\<lparr>opt_debug := Some False, opt_plugins := Some []\<rparr>)
          (new_requestContext (example_options\<lparr>opt_debug := Some False, opt_plugins := Some []\<rparr>)
             \<lparr>gr_query = JStr ''{ hello }'', gr_operationName = JUndefined,
              gr_variables = JUndefined, gr_extensions = JUndefined, gr_http = ?req\<rparr>
             \<lparr>partial_headers = [(''content-type'', ''application/json'')],
              partial_statusCode = None\<rparr>
             example_context)]"
    unfolding run_continue [OF sw]
    by (simp add: Let_def example_externals_def example_data_response_def
        runHttpQuery_respond_def HeaderMap_set_def local_options_def default_debug_def
        example_options_def debugFromNodeEnv_def example_request_def)
  note inst = debug_default_written_to_caller [of ?ext ?req example_context example_options]
  have "run_callerOptions (runHttpQuery ?ext ?req example_context example_options) =
     (if opt_debug example_options = None
      then example_options\<lparr>opt_debug :=
             Some (debugFromNodeEnv (process_env_NODE_ENV ?ext) (opt_nodeEnv example_options))\<rparr>
      else example_options)"
    using inst by (rule conjunct1)
  then have caller: "run_callerOptions (runHttpQuery ?ext ?req example_context example_options) =
      example_options\<lparr>opt_debug := Some False\<rparr>"
    by (simp add: example_options_def debugFromNodeEnv_def)
  have mem: "PipelineCall (example_options\<lparr>opt_debug := Some False, opt_plugins := Some []\<rparr>)
          (new_requestContext (example_options\<lparr>opt_debug := Some False, opt_plugins := Some []\<rparr>)
             \<lparr>gr_query = JStr ''{ hello }'', gr_operationName = JUndefined,
              gr_variables = JUndefined, gr_extensions = JUndefined, gr_http = ?req\<rparr>
             \<lparr>partial_headers = [(''content-type'', ''application/json'')],
              partial_statusCode = None\<rparr>
             example_context)
        \<in> set (run_calls (runHttpQuery ?ext ?req example_context example_options))"
    unfolding calls by simp
  from inst [THEN conjunct2, THEN conjunct2, THEN conjunct2, THEN conjunct2, rule_format, OF mem]
  have "opt_debug (example_options\<lparr>opt_debug := Some False, opt_plugins := Some []\<rparr>)
       = opt_debug (run_callerOptions (runHttpQuery ?ext ?req example_context example_options))"
    by (rule conjunct1)
  with caller calls show ?thesis by (intro conjI)
qed

section \<open>\<open>runHttpQuery\<close> does not throw\<close>


lemma js_Error_not_HttpQueryErr [simp]: "js_Error msg \<noteq> HttpQueryErr e"
  by (simp add: js_Error_def)

lemma js_TypeError_not_HttpQueryErr [simp]: "js_TypeError msg \<noteq> HttpQueryErr e"
  by (simp add: js_TypeError_def)






lemma opt_formatError_default_debug [simp]:
  "opt_formatError (default_debug ext options) = opt_formatError options"
  by (simp add: default_debug_def)


lemma example_post_switch:
  "runHttpQuery_switch ext example_post_request =
     Inr (Inr \<lparr>gr_query = JStr ''{ hello }'', gr_operationName = JUndefined,
               gr_variables = JUndefined, gr_extensions = JUndefined,
               gr_http = example_post_request\<rparr>)"
  by (simp add: runHttpQuery_switch_def example_post_request_def example_request_def
      isNonEmptyStringRecord_iff ensureQueryIsStringOrMissing_def fieldIfString_def
      fieldIfRecord_def isStringRecord_iff)



section \<open>The body of a normal completion\<close>










lemma run_returned:
  assumes "PipelineCall options' rc \<in> set (run_calls (runHttpQuery ext req ctx options0))"
    and "processGraphQLRequest ext options' rc = Returned response p"
  shows "runHttpQuery ext req ctx options0 =
     (case runHttpQuery_respond response p of
        Inr r \<Rightarrow> \<lparr>run_outcome = Inr r, run_callerOptions = default_debug ext options0,
                  run_calls = [PipelineCall options' rc]\<rparr>
      | Inl e \<Rightarrow> runHttpQuery_catch ext (default_debug ext options0) e [PipelineCall options' rc])"
proof -
  from run_calls_pipeline [OF assms(1)] obtain g where
    g: "runHttpQuery_switch ext req = Inr (Inr g)"
    and o: "options' = local_options req (default_debug ext options0)"
    and rc: "rc = new_requestContext options' g
                      \<lparr>partial_headers = [(''content-type'', ''application/json'')],
                       partial_statusCode = None\<rparr> ctx"
    by blast
  from assms(2) show ?thesis
    unfolding run_continue [OF g] Let_def o [symmetric] rc [symmetric] by simp
qed

lemma run_threw:
  assumes "PipelineCall options' rc \<in> set (run_calls (runHttpQuery ext req ctx options0))"
    and "processGraphQLRequest ext options' rc = Threw e"
  shows "runHttpQuery ext req ctx options0 =
           runHttpQuery_catch ext (default_debug ext options0) e [PipelineCall options' rc]"
proof -
  from run_calls_pipeline [OF assms(1)] obtain g where
    g: "runHttpQuery_switch ext req = Inr (Inr g)"
    and o: "options' = local_options req (default_debug ext options0)"
    and rc: "rc = new_requestContext options' g
                      \<lparr>partial_headers = [(''content-type'', ''application/json'')],
                       partial_statusCode = None\<rparr> ctx"
    by blast
  from assms(2) show ?thesis
    unfolding run_continue [OF g] Let_def o [symmetric] rc [symmetric] by simp
qed

lemma run_calls_mem:
  "runHttpQuery_switch ext req = Inr (Inr g) \<Longrightarrow>
   PipelineCall (local_options req (default_debug ext options0))
     (new_requestContext (local_options req (default_debug ext options0)) g
        \<lparr>partial_headers = [(''content-type'', ''application/json'')],
         partial_statusCode = None\<rparr> ctx)
   \<in> set (run_calls (runHttpQuery ext req ctx options0))"
  by (simp add: run_continue Let_def catch_calls
      split: pipeline_outcome.splits sum.splits exn.splits)

lemma example_local_options:
  "local_options example_post_request (default_debug (example_externals pipeline) example_options)
     = example_options\<lparr>opt_debug := Some False, opt_plugins := Some []\<rparr>"
  by (simp add: local_options_def default_debug_def example_options_def example_post_request_def
      example_request_def example_externals_def debugFromNodeEnv_def)

lemma example_post_call:
  "PipelineCall (example_options\<lparr>opt_debug := Some False, opt_plugins := Some []\<rparr>)
     example_post_requestContext
   \<in> set (run_calls (runHttpQuery (example_externals pipeline) example_post_request
             example_context example_options))"
  using run_calls_mem [OF example_post_switch, of "example_externals pipeline" example_options example_context]
  by (simp add: example_local_options example_post_requestContext_def example_post_graphql_request_def)

lemma example_post_partial:
  "rc_response_http example_post_requestContext =
     \<lparr>partial_headers = [(''content-type'', ''application/json'')], partial_statusCode = None\<rparr>"
  by (simp add: example_post_requestContext_def new_requestContext_def)




section \<open>A failure before execution\<close>

lemma respond_pre_execution:
  assumes "gres_errors response = Some es" and "gres_data response = JUndefined"
    and "gres_http response = Some http" and "lower_case_keys (partial_headers http)"
  shows "runHttpQuery_respond response p =
     Inr \<lparr>resp_statusCode =
            Some (case partial_statusCode http of None \<Rightarrow> 400
                  | Some s \<Rightarrow> if s = 0 then 400 else s),
          resp_headers = map_set_all (partial_headers http) [(''content-type'', ''application/json'')],
          resp_completeBody =
            Some (prettyJSONStringify
              (JObj [(''errors'', JArr es), (''extensions'', gres_extensions response)])),
          resp_bodyChunks = None\<rparr>"
  using assms
  by (simp add: runHttpQuery_respond_def map_entries_def new_HeaderMap_content_type
      split: option.splits)

text \<open>
  The path of lines 289 to 304 where the result carries its \<^verbatim>\<open>http\<close> part.
  When the pipeline returns errors and no data, and the \<^verbatim>\<open>http\<close> part of its
  result is present, with the lower-case header names of a \<open>HeaderMap\<close>, the
  response has the status of that part when it is set and not 0 (\<^verbatim>\<open>||\<close> takes
  400 for 0 as for a missing status), and 400 otherwise; its headers are
  \<^verbatim>\<open>content-type: application/json\<close> followed by those of the \<^verbatim>\<open>http\<close> part;
  its body is the JSON text of \<^verbatim>\<open>{errors, extensions}\<close> taken from the result as it
  is; and the pipeline call is the only call of a collaborator: the error formatter
  is not called.
\<close>

theorem pre_execution_failure_response:
  assumes call: "PipelineCall options' rc \<in> set (run_calls (runHttpQuery ext req ctx options0))"
    and ret: "processGraphQLRequest ext options' rc = Returned response p"
    and errors: "gres_errors response = Some es"
    and nodata: "gres_data response = JUndefined"
    and http: "gres_http response = Some http"
    and lower: "lower_case_keys (partial_headers http)"
  shows "run_outcome (runHttpQuery ext req ctx options0) =
           Inr \<lparr>resp_statusCode =
                  Some (case partial_statusCode http of None \<Rightarrow> 400
                        | Some s \<Rightarrow> if s = 0 then 400 else s),
                resp_headers =
                  map_set_all (partial_headers http) [(''content-type'', ''application/json'')],
                resp_completeBody =
                  Some (prettyJSONStringify
                    (JObj [(''errors'', JArr es), (''extensions'', gres_extensions response)])),
                resp_bodyChunks = None\<rparr>
         \<and> run_calls (runHttpQuery ext req ctx options0) = [PipelineCall options' rc]"
  by (simp add: run_returned [OF call ret] respond_pre_execution [OF errors nodata http lower])


theorem pre_execution_failure_response_witness:
  \<open>run_outcome (runHttpQuery
       (example_externals (\<lambda>opts rc. Returned
          (example_failed_response
             (Some \<lparr>partial_headers = [(''content-type'', ''application/json''), (''x-trace'', ''1'')],
                    partial_statusCode = Some 422\<rparr>))
          (rc_response_http rc)))
       example_post_request example_context example_options) =
     Inr \<lparr>resp_statusCode = Some 422,
          resp_headers = [(''content-type'', ''application/json''), (''x-trace'', ''1'')],
          resp_completeBody = Some (''{"errors":[{"message":"Syntax Error"}]}'' @ [newline]),
          resp_bodyChunks = None\<rparr>
   \<and> run_calls (runHttpQuery
       (example_externals (\<lambda>opts rc. Returned
          (example_failed_response
             (Some \<lparr>partial_headers = [(''content-type'', ''application/json''), (''x-trace'', ''1'')],
                    partial_statusCode = Some 422\<rparr>))
          (rc_response_http rc)))
       example_post_request example_context example_options) =
     [PipelineCall (example_options\<lparr>opt_debug := Some False, opt_plugins := Some []\<rparr>)
        example_post_requestContext]\<close>
proof -
  let ?http = "\<lparr>partial_headers = [(''content-type'', ''application/json''), (''x-trace'', ''1'')],
                    partial_statusCode = Some 422\<rparr>"
  let ?ext = "example_externals (\<lambda>opts rc. Returned
          (example_failed_response (Some ?http)) (rc_response_http rc))"
  have ret: "processGraphQLRequest ?ext
        (example_options\<lparr>opt_debug := Some False, opt_plugins := Some []\<rparr>)
        example_post_requestContext
      = Returned (example_failed_response (Some ?http))
          \<lparr>partial_headers = [(''content-type'', ''application/json'')], partial_statusCode = None\<rparr>"
    by (simp add: example_externals_def example_post_partial)
  have lower: "lower_case_keys (partial_headers ?http)"
    by (simp add: lower_case_keys_def toLowerCase_fixed is_upper_def upper_letters_def)
  have body: \<open>prettyJSONStringify
       (JObj [(''errors'', JArr [JObj [(''message'', JStr ''Syntax Error'')]]),
              (''extensions'', gres_extensions (example_failed_response (Some ?http)))])
      = ''{"errors":[{"message":"Syntax Error"}]}'' @ [newline]\<close>
    by (simp add: prettyJSONStringify_def example_failed_response_def
        quote_def escape_char_def dquote_def backslash_def)
  from pre_execution_failure_response [OF example_post_call ret _ _ _ lower,
      of "[JObj [(''message'', JStr ''Syntax Error'')]]"]
  show ?thesis
    unfolding body by (simp add: example_failed_response_def)
qed

text \<open>
  Claim C6. For a pipeline result with errors and no data, the response should have
  the status set on the partial response, or 400 when none is set, the body
  \<^verbatim>\<open>{errors, extensions}\<close> of the result, and the error formatter should not be
  called. The source does not do this for a result without an \<^verbatim>\<open>http\<close> part:
  line 292 reads the status through \<^verbatim>\<open>response.http?.statusCode || 400\<close>, but
  line 295 spreads \<^verbatim>\<open>response.http?.headers.entries()\<close>, which throws a
  \<^verbatim>\<open>TypeError\<close> when \<^verbatim>\<open>response.http\<close> is undefined. The \<^verbatim>\<open>catch\<close> block
  then answers 500 and has the collaborator format that error, as the evaluation at
  such a result shows.
\<close>

theorem pre_execution_failure_without_http:
  \<open>run_outcome (runHttpQuery
       (example_externals (\<lambda>opts rc. Returned (example_failed_response None) (rc_response_http rc)))
       example_post_request example_context example_options) =
     Inr \<lparr>resp_statusCode = Some 500,
          resp_headers = [(''content-type'', ''application/json'')],
          resp_completeBody =
            Some (''{"errors":[{"message":"undefined is not iterable"}]}'' @ [newline]),
          resp_bodyChunks = None\<rparr>
   \<and> run_calls (runHttpQuery
       (example_externals (\<lambda>opts rc. Returned (example_failed_response None) (rc_response_http rc)))
       example_post_request example_context example_options) =
     [PipelineCall (example_options\<lparr>opt_debug := Some False, opt_plugins := Some []\<rparr>)
        example_post_requestContext,
      FormatterCall [js_TypeError ''undefined is not iterable'']
        \<lparr>fmt_debug = Some False, fmt_formatter = None\<rparr>]\<close>
proof -
  have run: "runHttpQuery (example_externals (\<lambda>opts rc. Returned response (rc_response_http rc)))
        example_post_request example_context example_options =
      (case runHttpQuery_respond response
              \<lparr>partial_headers = [(''content-type'', ''application/json'')],
               partial_statusCode = None\<rparr> of
         Inr r \<Rightarrow> \<lparr>run_outcome = Inr r,
                   run_callerOptions = example_options\<lparr>opt_debug := Some False\<rparr>,
                   run_calls = [PipelineCall (example_options\<lparr>opt_debug := Some False, opt_plugins := Some []\<rparr>)
                                  example_post_requestContext]\<rparr>
       | Inl e \<Rightarrow> runHttpQuery_catch
                   (example_externals (\<lambda>opts rc. Returned response (rc_response_http rc)))
                   (example_options\<lparr>opt_debug := Some False\<rparr>) e
                   [PipelineCall (example_options\<lparr>opt_debug := Some False, opt_plugins := Some []\<rparr>)
                      example_post_requestContext])" for response
  proof -
    have ret: "processGraphQLRequest (example_externals (\<lambda>opts rc. Returned response (rc_response_http rc)))
        (example_options\<lparr>opt_debug := Some False, opt_plugins := Some []\<rparr>)
        example_post_requestContext
      = Returned response
          \<lparr>partial_headers = [(''content-type'', ''application/json'')], partial_statusCode = None\<rparr>"
      by (simp add: example_externals_def example_post_partial)
    have dd: "default_debug (example_externals (\<lambda>opts rc. Returned response (rc_response_http rc)))
        example_options = example_options\<lparr>opt_debug := Some False\<rparr>"
      by (simp add: default_debug_def example_options_def example_externals_def debugFromNodeEnv_def)
    show ?thesis
      unfolding run_returned [OF example_post_call ret] dd ..
  qed
  show ?thesis
    unfolding run
    by (simp add: runHttpQuery_respond_def example_failed_response_def map_entries_def
        new_HeaderMap_def HeaderMap_set_def runHttpQuery_catch_def js_TypeError_def example_externals_def
        example_formatApolloErrors_def example_options_def
        prettyJSONStringify_def quote_def escape_char_def dquote_def backslash_def)
qed

section \<open>The JSON fields of a GET\<close>

lemma run_switch_throws:
  assumes "runHttpQuery_switch ext req = Inl (HttpQueryErr e)" and "hqe_headers e = []"
  shows "run_outcome (runHttpQuery ext req ctx options0) =
           Inr (plain_response (hqe_statusCode e) (hqe_message e))
         \<and> run_calls (runHttpQuery ext req ctx options0) = []"
  using assms
  by (simp add: run_throw runHttpQuery_catch_def asHTTPGraphQLResponse_lower plain_response_def)

lemma switch_get:
  assumes "req_method req = ''GET''"
    and "isNonEmptyStringRecord (req_searchParams req)"
    and "\<not> truthy (get_prop (req_searchParams req) ''query'')
         \<or> typeof (get_prop (req_searchParams req) ''query'') = ''string''"
  shows "runHttpQuery_switch ext req =
     bindE (jsonParsedFieldIfNonEmptyString (JSON_parse ext) (req_searchParams req) ''variables'')
       (\<lambda>variables.
          bindE (jsonParsedFieldIfNonEmptyString (JSON_parse ext) (req_searchParams req) ''extensions'')
            (\<lambda>extensions. Inr (Inr
               \<lparr>gr_query = fieldIfString (req_searchParams req) ''query'',
                gr_operationName = fieldIfString (req_searchParams req) ''operationName'',
                gr_variables = variables,
                gr_extensions = extensions,
                gr_http = req\<rparr>)))"
  using assms by (auto simp: runHttpQuery_switch_def ensureQueryIsStringOrMissing_def)

lemma jsonParsed_invalid:
  "get_prop v f = JStr s \<Longrightarrow> s \<noteq> [] \<Longrightarrow> parse s = None \<Longrightarrow>
   jsonParsedFieldIfNonEmptyString parse v f =
     Inl (HttpQueryErr \<lparr>hqe_message = ''The '' @ f @ '' search parameter contains invalid JSON.'',
                        hqe_statusCode = 400, hqe_isGraphQLError = False, hqe_headers = []\<rparr>)"
  by (simp add: jsonParsedFieldIfNonEmptyString_def)

lemma jsonParsed_not_object:
  "get_prop v f = JStr s \<Longrightarrow> s \<noteq> [] \<Longrightarrow> parse s = Some j \<Longrightarrow> \<forall>kvs. j \<noteq> JObj kvs \<Longrightarrow>
   jsonParsedFieldIfNonEmptyString parse v f =
     Inl (HttpQueryErr
       \<lparr>hqe_message = ''The '' @ f @ '' search parameter should contain a JSON-encoded object.'',
        hqe_statusCode = 400, hqe_isGraphQLError = False, hqe_headers = []\<rparr>)"
  by (simp add: jsonParsedFieldIfNonEmptyString_def isStringRecord_iff)

lemma jsonParsed_object:
  "get_prop v f = JStr s \<Longrightarrow> s \<noteq> [] \<Longrightarrow> parse s = Some (JObj kvs) \<Longrightarrow>
   jsonParsedFieldIfNonEmptyString parse v f = Inr (JObj kvs)"
  by (simp add: jsonParsedFieldIfNonEmptyString_def isStringRecord_iff)

lemma jsonParsed_absent:
  "typeof (get_prop v f) \<noteq> ''string'' \<or> get_prop v f = JStr [] \<Longrightarrow>
   jsonParsedFieldIfNonEmptyString parse v f = Inr JUndefined"
  by (auto simp: jsonParsedFieldIfNonEmptyString_def)

lemma get_prop_record: "get_prop v f = JStr s \<Longrightarrow> isNonEmptyStringRecord v"
  by (cases v) (auto simp: isNonEmptyStringRecord_iff split: option.splits)

text \<open>
  Claim C8, as amended. For a \<^verbatim>\<open>GET\<close> whose \<^verbatim>\<open>query\<close> parameter is missing,
  falsy or a string, \<^verbatim>\<open>variables\<close> is taken from the search parameters by
  \<^verbatim>\<open>JSON.parse\<close> of the field when it is a non-empty string. If the parser
  fails, the response is 400 with
  \<^verbatim>\<open>The variables search parameter contains invalid JSON.\<close>; if it gives a value
  that is not an object, the response is 400 with
  \<^verbatim>\<open>The variables search parameter should contain a JSON-encoded object.\<close>; in both
  cases no collaborator is called. \<^verbatim>\<open>extensions\<close> is taken in the same way, with
  its own name in the messages, once \<^verbatim>\<open>variables\<close> was taken without an error.
  If a field is missing, not a string or the empty string, its value is undefined and
  nothing fails; if the parser gives an object, that object is the value. Both values
  are what the request of the pipeline call holds.
\<close>

theorem get_json_fields:
  assumes get: "req_method req = ''GET''"
    and query: "\<not> truthy (get_prop (req_searchParams req) ''query'')
                \<or> typeof (get_prop (req_searchParams req) ''query'') = ''string''"
  shows
   "(\<forall>s. get_prop (req_searchParams req) ''variables'' = JStr s \<and> s \<noteq> []
          \<and> JSON_parse ext s = None \<longrightarrow>
        run_outcome (runHttpQuery ext req ctx options0) =
          Inr (plain_response 400 ''The variables search parameter contains invalid JSON.'')
        \<and> run_calls (runHttpQuery ext req ctx options0) = [])
    \<and> (\<forall>s j. get_prop (req_searchParams req) ''variables'' = JStr s \<and> s \<noteq> []
          \<and> JSON_parse ext s = Some j \<and> (\<forall>kvs. j \<noteq> JObj kvs) \<longrightarrow>
        run_outcome (runHttpQuery ext req ctx options0) =
          Inr (plain_response 400
                 ''The variables search parameter should contain a JSON-encoded object.'')
        \<and> run_calls (runHttpQuery ext req ctx options0) = [])
    \<and> (\<forall>variables.
          jsonParsedFieldIfNonEmptyString (JSON_parse ext) (req_searchParams req) ''variables''
            = Inr variables \<longrightarrow>
          (\<forall>s. get_prop (req_searchParams req) ''extensions'' = JStr s \<and> s \<noteq> []
                \<and> JSON_parse ext s = None \<longrightarrow>
             run_outcome (runHttpQuery ext req ctx options0) =
               Inr (plain_response 400 ''The extensions search parameter contains invalid JSON.'')
             \<and> run_calls (runHttpQuery ext req ctx options0) = [])
          \<and> (\<forall>s j. get_prop (req_searchParams req) ''extensions'' = JStr s \<and> s \<noteq> []
                \<and> JSON_parse ext s = Some j \<and> (\<forall>kvs. j \<noteq> JObj kvs) \<longrightarrow>
             run_outcome (runHttpQuery ext req ctx options0) =
               Inr (plain_response 400
                      ''The extensions search parameter should contain a JSON-encoded object.'')
             \<and> run_calls (runHttpQuery ext req ctx options0) = []))
    \<and> (\<forall>f. typeof (get_prop (req_searchParams req) f) \<noteq> ''string''
             \<or> get_prop (req_searchParams req) f = JStr [] \<longrightarrow>
          jsonParsedFieldIfNonEmptyString (JSON_parse ext) (req_searchParams req) f
            = Inr JUndefined)
    \<and> (\<forall>f s kvs. get_prop (req_searchParams req) f = JStr s \<and> s \<noteq> []
             \<and> JSON_parse ext s = Some (JObj kvs) \<longrightarrow>
          jsonParsedFieldIfNonEmptyString (JSON_parse ext) (req_searchParams req) f
            = Inr (JObj kvs))
    \<and> (\<forall>options' rc.
          PipelineCall options' rc \<in> set (run_calls (runHttpQuery ext req ctx options0)) \<longrightarrow>
          jsonParsedFieldIfNonEmptyString (JSON_parse ext) (req_searchParams req) ''variables''
            = Inr (gr_variables (rc_request rc))
          \<and> jsonParsedFieldIfNonEmptyString (JSON_parse ext) (req_searchParams req) ''extensions''
            = Inr (gr_extensions (rc_request rc)))"
proof (intro conjI allI impI; (elim conjE)?)
  fix s
  assume v: "get_prop (req_searchParams req) ''variables'' = JStr s" "s \<noteq> []" "JSON_parse ext s = None"
  from run_switch_throws [of ext req _ ctx options0]
    switch_get [OF get get_prop_record [OF v(1)] query, of ext] jsonParsed_invalid [where parse = "JSON_parse ext", OF v]
  show "run_outcome (runHttpQuery ext req ctx options0) =
          Inr (plain_response 400 ''The variables search parameter contains invalid JSON.'')"
    and "run_calls (runHttpQuery ext req ctx options0) = []"
    by simp_all
next
  fix s j
  assume v: "get_prop (req_searchParams req) ''variables'' = JStr s" "s \<noteq> []"
    "JSON_parse ext s = Some j" "\<forall>kvs. j \<noteq> JObj kvs"
  from run_switch_throws [of ext req _ ctx options0]
    switch_get [OF get get_prop_record [OF v(1)] query, of ext] jsonParsed_not_object [where parse = "JSON_parse ext", OF v]
  show "run_outcome (runHttpQuery ext req ctx options0) =
          Inr (plain_response 400
                 ''The variables search parameter should contain a JSON-encoded object.'')"
    and "run_calls (runHttpQuery ext req ctx options0) = []"
    by simp_all
next
  fix variables s
  assume ok: "jsonParsedFieldIfNonEmptyString (JSON_parse ext) (req_searchParams req) ''variables''
            = Inr variables"
    and v: "get_prop (req_searchParams req) ''extensions'' = JStr s" "s \<noteq> []" "JSON_parse ext s = None"
  from run_switch_throws [of ext req _ ctx options0]
    switch_get [OF get get_prop_record [OF v(1)] query, of ext] jsonParsed_invalid [where parse = "JSON_parse ext", OF v] ok
  show "run_outcome (runHttpQuery ext req ctx options0) =
          Inr (plain_response 400 ''The extensions search parameter contains invalid JSON.'')"
    and "run_calls (runHttpQuery ext req ctx options0) = []"
    by simp_all
next
  fix variables s j
  assume ok: "jsonParsedFieldIfNonEmptyString (JSON_parse ext) (req_searchParams req) ''variables''
            = Inr variables"
    and v: "get_prop (req_searchParams req) ''extensions'' = JStr s" "s \<noteq> []"
    "JSON_parse ext s = Some j" "\<forall>kvs. j \<noteq> JObj kvs"
  from run_switch_throws [of ext req _ ctx options0]
    switch_get [OF get get_prop_record [OF v(1)] query, of ext] jsonParsed_not_object [where parse = "JSON_parse ext", OF v] ok
  show "run_outcome (runHttpQuery ext req ctx options0) =
          Inr (plain_response 400
                 ''The extensions search parameter should contain a JSON-encoded object.'')"
    and "run_calls (runHttpQuery ext req ctx options0) = []"
    by simp_all
next
  fix f
  assume "typeof (get_prop (req_searchParams req) f) \<noteq> ''string''
             \<or> get_prop (req_searchParams req) f = JStr []"
  then show "jsonParsedFieldIfNonEmptyString (JSON_parse ext) (req_searchParams req) f
            = Inr JUndefined"
    by (rule jsonParsed_absent)
next
  fix f s kvs
  assume "get_prop (req_searchParams req) f = JStr s" "s \<noteq> []" "JSON_parse ext s = Some (JObj kvs)"
  then show "jsonParsedFieldIfNonEmptyString (JSON_parse ext) (req_searchParams req) f
            = Inr (JObj kvs)"
    by (rule jsonParsed_object [where parse = "JSON_parse ext"])
next
  fix options' rc
  assume "PipelineCall options' rc \<in> set (run_calls (runHttpQuery ext req ctx options0))"
  from run_calls_pipeline [OF this] obtain g where
    g: "runHttpQuery_switch ext req = Inr (Inr g)"
    and rc: "rc = new_requestContext options' g
                      \<lparr>partial_headers = [(''content-type'', ''application/json'')],
                       partial_statusCode = None\<rparr> ctx"
    by blast
  have rec: "isNonEmptyStringRecord (req_searchParams req)"
    using g get by (auto simp: runHttpQuery_switch_def asHTTPGraphQLResponse_lower split: if_splits)
  from g switch_get [OF get rec query, of ext]
  have "jsonParsedFieldIfNonEmptyString (JSON_parse ext) (req_searchParams req) ''variables''
            = Inr (gr_variables g)
          \<and> jsonParsedFieldIfNonEmptyString (JSON_parse ext) (req_searchParams req) ''extensions''
            = Inr (gr_extensions g)"
    by (auto simp: bindE_eq_Inr)
  then show "jsonParsedFieldIfNonEmptyString (JSON_parse ext) (req_searchParams req) ''variables''
            = Inr (gr_variables (rc_request rc))"
    and "jsonParsedFieldIfNonEmptyString (JSON_parse ext) (req_searchParams req) ''extensions''
            = Inr (gr_extensions (rc_request rc))"
    by (simp_all add: rc new_requestContext_def)
qed


theorem get_json_fields_witness:
  "run_outcome (runHttpQuery (example_externals (\<lambda>opts rc. Threw (ThrownValue JNull)))
       (example_get_request (JObj [(''query'', JStr ''{ hello }''), (''variables'', JStr ''{'')]))
       example_context example_options)
     = Inr (plain_response 400 ''The variables search parameter contains invalid JSON.'')
   \<and> run_outcome (runHttpQuery (example_externals (\<lambda>opts rc. Threw (ThrownValue JNull)))
       (example_get_request (JObj [(''query'', JStr ''{ hello }''), (''variables'', JStr ''{}''),
                                   (''extensions'', JStr ''[]'')]))
       example_context example_options)
     = Inr (plain_response 400
              ''The extensions search parameter should contain a JSON-encoded object.'')"
proof -
  let ?ext = "example_externals (\<lambda>opts rc. Threw (ThrownValue JNull))"
  let ?r1 = "example_get_request (JObj [(''query'', JStr ''{ hello }''), (''variables'', JStr ''{'')])"
  let ?r2 = "example_get_request (JObj [(''query'', JStr ''{ hello }''), (''variables'', JStr ''{}''),
                                   (''extensions'', JStr ''[]'')])"
  have get1: "req_method ?r1 = ''GET''" and get2: "req_method ?r2 = ''GET''"
    by (simp_all add: example_get_request_def example_request_def)
  have q1: "\<not> truthy (get_prop (req_searchParams ?r1) ''query'')
                \<or> typeof (get_prop (req_searchParams ?r1) ''query'') = ''string''"
    and q2: "\<not> truthy (get_prop (req_searchParams ?r2) ''query'')
                \<or> typeof (get_prop (req_searchParams ?r2) ''query'') = ''string''"
    by (simp_all add: example_get_request_def example_request_def)
  have v1: "get_prop (req_searchParams ?r1) ''variables'' = JStr ''{'' \<and> ''{'' \<noteq> []
          \<and> JSON_parse ?ext ''{'' = None"
    by (simp add: example_get_request_def example_request_def example_externals_def
        example_JSON_parse_def)
  have v2: "jsonParsedFieldIfNonEmptyString (JSON_parse ?ext) (req_searchParams ?r2) ''variables''
            = Inr (JObj [])"
    by (simp add: example_get_request_def example_request_def example_externals_def
        example_JSON_parse_def jsonParsedFieldIfNonEmptyString_def isStringRecord_iff)
  have e2: "get_prop (req_searchParams ?r2) ''extensions'' = JStr ''[]'' \<and> ''[]'' \<noteq> []
          \<and> JSON_parse ?ext ''[]'' = Some (JArr []) \<and> (\<forall>kvs. JArr [] \<noteq> JObj kvs)"
    by (simp add: example_get_request_def example_request_def example_externals_def
        example_JSON_parse_def)
  from get_json_fields [OF get1 q1, of ?ext example_context example_options,
      THEN conjunct1, rule_format, OF v1]
  have first: "run_outcome (runHttpQuery ?ext ?r1 example_context example_options)
     = Inr (plain_response 400 ''The variables search parameter contains invalid JSON.'')"
    by (rule conjunct1)
  from get_json_fields [OF get2 q2, of ?ext example_context example_options,
      THEN conjunct2, THEN conjunct2, THEN conjunct1, rule_format, OF v2,
      THEN conjunct2, rule_format, OF e2]
  have second: "run_outcome (runHttpQuery ?ext ?r2 example_context example_options)
     = Inr (plain_response 400
              ''The extensions search parameter should contain a JSON-encoded object.'')"
    by (rule conjunct1)
  from first second show ?thesis by (rule conjI)
qed

text \<open>
  The claim as stated, for every \<^verbatim>\<open>GET\<close> and for each of the two fields, fails
  where an earlier check ends the request: with both fields invalid the message names
  \<^verbatim>\<open>variables\<close> only, and \<^verbatim>\<open>extensions\<close> is never parsed; with a
  \<^verbatim>\<open>query\<close> that is an array, no field is parsed and the message is about the
  query.
\<close>

theorem get_json_fields_counterexample:
  "JSON_parse (example_externals (\<lambda>opts rc. Threw (ThrownValue JNull))) ''{'' = None
   \<and> run_outcome (runHttpQuery (example_externals (\<lambda>opts rc. Threw (ThrownValue JNull)))
       (example_get_request (JObj [(''query'', JStr ''{ hello }''), (''variables'', JStr ''{''),
                                   (''extensions'', JStr ''{'')]))
       example_context example_options)
     = Inr (plain_response 400 ''The variables search parameter contains invalid JSON.'')
   \<and> run_outcome (runHttpQuery (example_externals (\<lambda>opts rc. Threw (ThrownValue JNull)))
       (example_get_request (JObj [(''query'', JArr [JStr ''{ a }'', JStr ''{ b }'']),
                                   (''variables'', JStr ''{'')]))
       example_context example_options)
     = Inr (plain_response 400 ''GraphQL queries must be strings.'')"
proof -
  let ?ext = "example_externals (\<lambda>opts rc. Threw (ThrownValue JNull))"
  let ?r1 = "example_get_request (JObj [(''query'', JStr ''{ hello }''), (''variables'', JStr ''{''),
                                   (''extensions'', JStr ''{'')])"
  let ?r2 = "example_get_request (JObj [(''query'', JArr [JStr ''{ a }'', JStr ''{ b }'']),
                                   (''variables'', JStr ''{'')])"
  have parse: "JSON_parse ?ext ''{'' = None"
    by (simp add: example_externals_def example_JSON_parse_def)
  have sw1: "runHttpQuery_switch ?ext ?r1 =
      Inl (HttpQueryErr \<lparr>hqe_message = ''The variables search parameter contains invalid JSON.'',
                         hqe_statusCode = 400, hqe_isGraphQLError = False, hqe_headers = []\<rparr>)"
    by (simp add: runHttpQuery_switch_def example_get_request_def example_request_def
        isNonEmptyStringRecord_iff ensureQueryIsStringOrMissing_def
        jsonParsedFieldIfNonEmptyString_def example_externals_def example_JSON_parse_def)
  have sw2: "runHttpQuery_switch ?ext ?r2 =
      Inl (HttpQueryErr \<lparr>hqe_message = ''GraphQL queries must be strings.'',
                         hqe_statusCode = 400, hqe_isGraphQLError = False, hqe_headers = []\<rparr>)"
    by (simp add: runHttpQuery_switch_def example_get_request_def example_request_def
        isNonEmptyStringRecord_iff ensureQueryIsStringOrMissing_def)
  from run_switch_throws [OF sw1, of example_context example_options]
    run_switch_throws [OF sw2, of example_context example_options] parse
  show ?thesis by simp
qed

section \<open>The context function\<close>


lemma exn_extensions_set_message [simp]: "exn_extensions (exn_set_message m e) = exn_extensions e"
  by (cases e) simp_all





section \<open>A GET runs queries only\<close>

lemma get_didResolveOperation_throws:
  "operation \<noteq> ''query'' \<Longrightarrow>
   get_didResolveOperation operation =
     Inl (HttpQueryErr \<lparr>hqe_message = ''GET supports only query operation'',
                        hqe_statusCode = 405, hqe_isGraphQLError = False,
                        hqe_headers = [(''allow'', ''POST'')]\<rparr>)"
  by (simp add: get_didResolveOperation_def throw_HttpQueryError_def)

lemma local_options_plugins:
  "opt_plugins (local_options req options) =
     Some ((if req_method req = ''GET'' then [get_plugin] else [])
           @ (case opt_plugins options of None \<Rightarrow> [] | Some ps \<Rightarrow> ps))"
  by (simp add: local_options_def Let_def)

lemma opt_plugins_default_debug [simp]:
  "opt_plugins (default_debug ext options) = opt_plugins options"
  by (simp add: default_debug_def)

text \<open>
  Claim C5. For a \<^verbatim>\<open>GET\<close>, the plugin list that the pipeline receives is the
  caller's list with one plugin put first, whose \<^verbatim>\<open>didResolveOperation\<close> hook
  throws an \<open>HttpQueryError\<close> with status 405, the message
  \<^verbatim>\<open>GET supports only query operation\<close> and the header \<^verbatim>\<open>allow: POST\<close> when the
  kind of the resolved operation is not \<^verbatim>\<open>query\<close>, and does nothing for a query.
  For another method the pipeline receives the caller's list as it is. With a
  pipeline that gives the resolved operation to the hooks of its plugin list and ends
  with the error a hook throws, a \<^verbatim>\<open>GET\<close> whose operation is a mutation is answered
  405 with \<^verbatim>\<open>allow: POST\<close>.
\<close>

theorem get_plugin_prepended:
  assumes call: "PipelineCall options' rc \<in> set (run_calls (runHttpQuery ext req ctx options0))"
  shows "(req_method req = ''GET'' \<longrightarrow>
            opt_plugins options' =
              Some (get_plugin # (case opt_plugins options0 of None \<Rightarrow> [] | Some ps \<Rightarrow> ps)))
    \<and> (req_method req \<noteq> ''GET'' \<longrightarrow>
            opt_plugins options' =
              Some (case opt_plugins options0 of None \<Rightarrow> [] | Some ps \<Rightarrow> ps))
    \<and> requestDidStart get_plugin = Some \<lparr>didResolveOperation = Some get_didResolveOperation\<rparr>
    \<and> (\<forall>operation. operation \<noteq> ''query'' \<longrightarrow>
          get_didResolveOperation operation =
            Inl (HttpQueryErr \<lparr>hqe_message = ''GET supports only query operation'',
                               hqe_statusCode = 405, hqe_isGraphQLError = False,
                               hqe_headers = [(''allow'', ''POST'')]\<rparr>))
    \<and> get_didResolveOperation ''query'' = Inr ()
    \<and> (\<forall>resolve execute.
          req_method req = ''GET''
          \<and> processGraphQLRequest ext = resolving_pipeline resolve execute
          \<and> resolve (rc_request rc) \<noteq> ''query'' \<longrightarrow>
          run_outcome (runHttpQuery ext req ctx options0) =
            Inr \<lparr>resp_statusCode = Some 405,
                 resp_headers = [(''content-type'', ''text/plain''), (''allow'', ''POST'')],
                 resp_completeBody = Some ''GET supports only query operation'',
                 resp_bodyChunks = None\<rparr>)"
proof -
  from run_calls_pipeline [OF call]
  have o: "options' = local_options req (default_debug ext options0)"
    by blast
  have plugins: "opt_plugins options' =
     Some ((if req_method req = ''GET'' then [get_plugin] else [])
           @ (case opt_plugins options0 of None \<Rightarrow> [] | Some ps \<Rightarrow> ps))"
    by (simp add: o local_options_plugins)
  have rejected: "run_outcome (runHttpQuery ext req ctx options0) =
            Inr \<lparr>resp_statusCode = Some 405,
                 resp_headers = [(''content-type'', ''text/plain''), (''allow'', ''POST'')],
                 resp_completeBody = Some ''GET supports only query operation'',
                 resp_bodyChunks = None\<rparr>"
    if get: "req_method req = ''GET''"
      and pipe: "processGraphQLRequest ext = resolving_pipeline resolve execute"
      and op: "resolve (rc_request rc) \<noteq> ''query''"
    for resolve execute
  proof -
    have "processGraphQLRequest ext options' rc =
        Threw (HttpQueryErr \<lparr>hqe_message = ''GET supports only query operation'',
                             hqe_statusCode = 405, hqe_isGraphQLError = False,
                             hqe_headers = [(''allow'', ''POST'')]\<rparr>)"
      using get op
      by (simp add: pipe resolving_pipeline_def plugins get_plugin_def
          get_didResolveOperation_throws)
    from run_threw [OF call this] show ?thesis
      by (simp add: runHttpQuery_catch_def asHTTPGraphQLResponse_lower)
  qed
  show ?thesis
    using plugins rejected
    by (simp add: get_plugin_def get_didResolveOperation_throws)
       (simp add: get_didResolveOperation_def)
qed

lemma example_mutation_switch:
  "runHttpQuery_switch ext example_mutation_request =
     Inr (Inr \<lparr>gr_query = JStr ''mutation { noop }'', gr_operationName = JUndefined,
               gr_variables = JUndefined, gr_extensions = JUndefined,
               gr_http = example_mutation_request\<rparr>)"
  by (simp add: runHttpQuery_switch_def example_mutation_request_def example_get_request_def
      example_request_def isNonEmptyStringRecord_iff ensureQueryIsStringOrMissing_def
      fieldIfString_def jsonParsedFieldIfNonEmptyString_def)

theorem get_plugin_prepended_witness:
  "opt_plugins (local_options example_mutation_request
       (default_debug (example_externals example_mutation_pipeline) example_options))
     = Some [get_plugin]
   \<and> run_outcome (runHttpQuery (example_externals example_mutation_pipeline)
       example_mutation_request example_context example_options) =
     Inr \<lparr>resp_statusCode = Some 405,
          resp_headers = [(''content-type'', ''text/plain''), (''allow'', ''POST'')],
          resp_completeBody = Some ''GET supports only query operation'',
          resp_bodyChunks = None\<rparr>"
proof -
  let ?ext = "example_externals example_mutation_pipeline"
  note inst = get_plugin_prepended [OF run_calls_mem [OF example_mutation_switch],
      of ?ext example_options example_context]
  have method_get: "req_method example_mutation_request = ''GET''"
    by (simp add: example_mutation_request_def example_get_request_def example_request_def)
  have get: "req_method example_mutation_request = ''GET''
      \<and> processGraphQLRequest ?ext =
          resolving_pipeline (\<lambda>g. ''mutation'')
            (\<lambda>opts rc. Returned example_data_response (rc_response_http rc))
      \<and> (\<lambda>g. ''mutation'') (rc_request
            (new_requestContext
               (local_options example_mutation_request (default_debug ?ext example_options))
               \<lparr>gr_query = JStr ''mutation { noop }'', gr_operationName = JUndefined,
                gr_variables = JUndefined, gr_extensions = JUndefined,
                gr_http = example_mutation_request\<rparr>
               \<lparr>partial_headers = [(''content-type'', ''application/json'')],
                partial_statusCode = None\<rparr>
               example_context)) \<noteq> ''query''"
    by (simp add: method_get example_externals_def example_mutation_pipeline_def)
  from inst [THEN conjunct1, rule_format, OF method_get]
  have plugins: "opt_plugins (local_options example_mutation_request
       (default_debug ?ext example_options)) = Some [get_plugin]"
    by (simp add: example_options_def)
  from inst [THEN conjunct2, THEN conjunct2, THEN conjunct2, THEN conjunct2, THEN conjunct2,
      rule_format, OF get]
  have "run_outcome (runHttpQuery ?ext example_mutation_request example_context example_options) =
     Inr \<lparr>resp_statusCode = Some 405,
          resp_headers = [(''content-type'', ''text/plain''), (''allow'', ''POST'')],
          resp_completeBody = Some ''GET supports only query operation'',
          resp_bodyChunks = None\<rparr>" .
  with plugins show ?thesis by (rule conjI)
qed

end
